theory Spec2Isabelle
  imports Complex_Main
begin

section \<open>GNSS observation estimator (ObservationEstimator.hpp)\<close>

text \<open>
  The C++ \<open>double\<close> is modelled by \<open>real\<close>: the properties below are algebraic identities
  and inequalities of the formulas the code evaluates, not statements about rounding.
  Log statements (\<open>LOG_DATA\<close>) do not influence any value and are left out.
\<close>

subsection \<open>Vectors\<close>

type_synonym Vector3d = "real \<times> real \<times> real"

definition vminus :: "Vector3d \<Rightarrow> Vector3d \<Rightarrow> Vector3d" where
  "vminus a b = (case a of (a1, a2, a3) \<Rightarrow> case b of (b1, b2, b3) \<Rightarrow> (a1 - b1, a2 - b2, a3 - b3))"

definition dot :: "Vector3d \<Rightarrow> Vector3d \<Rightarrow> real" where
  "dot a b = (case a of (a1, a2, a3) \<Rightarrow> case b of (b1, b2, b3) \<Rightarrow> a1 * b1 + a2 * b2 + a3 * b3)"

definition norm_v :: "Vector3d \<Rightarrow> real" where
  "norm_v a = sqrt (dot a a)"

subsection \<open>Data\<close>

text \<open>
  \<open>Frequency\<close> and \<open>SatelliteSystem\<close> are enumeration codes. The types of the time stamp
  (\<open>InsTime\<close>), of the navigation data, of the broadcast ionospheric corrections and of the
  three model configurations are declared outside the files at hand; they are type
  parameters \<open>'t\<close>, \<open>'nav\<close>, \<open>'ic\<close>, \<open>'im\<close>, \<open>'tm\<close>, \<open>'em\<close>.
\<close>

type_synonym Frequency = nat
type_synonym SatelliteSystem = nat

datatype ObservationDifference = NoDifference | SingleDifference | DoubleDifference

datatype ObservationType = Pseudorange | Carrier | Doppler | ObservationType_COUNT

datatype error = out_of_range

record SatSigId =
  freq :: Frequency
  satNum :: nat

record UncertainValue =
  val :: real
  stdDev :: real

record Corrections =
  sat_bias :: real
  sat_drift :: real

record ReceiverClock =
  bias :: UncertainValue
  drift :: UncertainValue
  sysTimeDiffBias :: "UncertainValue list"
  sysTimeDiffDrift :: "UncertainValue list"

record 't GnssObs =
  insTime :: 't

record 't Receiver =
  e_pos :: Vector3d
  e_vel :: Vector3d
  lla_pos :: Vector3d
  recvClk :: ReceiverClock
  interFrequencyBias :: "Frequency \<rightharpoonup> UncertainValue"
  gnssObs :: "'t GnssObs"

record ZenithDelay =
  ZHD :: real
  ZWD :: real
  zhdMappingFactor :: real
  zwdMappingFactor :: real

record Terms =
  rho_r_s :: real
  tropoZenithDelay :: ZenithDelay
  dpsr_T_r_s :: real
  dpsr_I_r_s :: real
  dpsr_ie_r_s :: real

record ObservationData =
  estimate :: real
  measurement :: real
  measVar :: real

record ReceiverSpecificData =
  e_satPos :: Vector3d
  e_satVel :: Vector3d
  e_pLOS :: Vector3d
  satClock :: Corrections
  satElevation :: real
  satAzimuth :: real
  CN0 :: "real option"
  terms :: Terms
  obs :: "(ObservationType \<times> ObservationData) list"

record 'nav SignalObservation =
  recvObs :: "ReceiverSpecificData list"
  freqNum :: int
  navData :: 'nav

record 'nav Observations =
  signals :: "(SatSigId \<times> 'nav SignalObservation) list"

text \<open>The members of the estimator object.\<close>

record ('im, 'tm, 'em) ObservationEstimator =
  ionosphereModel :: 'im
  troposphereModels :: 'tm
  gnssMeasurementErrorModel :: 'em

text \<open>
  The functions and the constant that \<open>calcObservationEstimates\<close> calls and that are
  defined outside the files at hand. They are parameters of the model: every theorem
  holds for whatever they compute.
\<close>

record ('t, 'nav, 'ic, 'im, 'tm, 'em) Externals =
  InsConst_C :: real
  getSatSys :: "Frequency \<Rightarrow> SatelliteSystem"
  toEnumeration :: "SatelliteSystem \<Rightarrow> nat"
  toGPSweekTow_tow :: "'t \<Rightarrow> real"
  calcTroposphericDelayAndMapping :: "'t \<Rightarrow> Vector3d \<Rightarrow> real \<Rightarrow> real \<Rightarrow> 'tm \<Rightarrow> ZenithDelay"
  calcIonosphericDelay ::
    "real \<Rightarrow> Frequency \<Rightarrow> int \<Rightarrow> Vector3d \<Rightarrow> real \<Rightarrow> real \<Rightarrow> 'im \<Rightarrow> 'ic \<Rightarrow> real"
  calcSagnacCorrection :: "Vector3d \<Rightarrow> Vector3d \<Rightarrow> real"
  calcSagnacRateCorrection :: "Vector3d \<Rightarrow> Vector3d \<Rightarrow> Vector3d \<Rightarrow> Vector3d \<Rightarrow> real"
  calcSatellitePositionVariance :: "'nav \<Rightarrow> real"
  ionoErrorVar :: "real \<Rightarrow> Frequency \<Rightarrow> int \<Rightarrow> real"
  tropoErrorVar :: "real \<Rightarrow> real \<Rightarrow> real"
  psrMeasErrorVar :: "'em \<Rightarrow> SatelliteSystem \<Rightarrow> real \<Rightarrow> real \<Rightarrow> real"
  carrierMeasErrorVar :: "'em \<Rightarrow> SatelliteSystem \<Rightarrow> real \<Rightarrow> real \<Rightarrow> real"
  psrRateMeasErrorVar :: "'em \<Rightarrow> Frequency \<Rightarrow> int \<Rightarrow> real \<Rightarrow> real \<Rightarrow> real"
  codeBiasErrorVar :: "'em \<Rightarrow> real"

subsection \<open>Helpers of the embedding\<close>

text \<open>\<open>std::array::at\<close> and \<open>std::vector::at\<close>: a checked read that throws \<open>std::out_of_range\<close>.\<close>

definition array_at :: "'a list \<Rightarrow> nat \<Rightarrow> error + 'a" where
  "array_at xs i = (if i < length xs then Inr (xs ! i) else Inl out_of_range)"

text \<open>A C++ \<open>bool\<close> used as a factor is converted to \<open>1.0\<close> or \<open>0.0\<close>.\<close>

definition b2d :: "bool \<Rightarrow> real" where
  "b2d b = (if b then 1 else 0)"

text \<open>
  \<open>for (auto& [k, v] : m)\<close> over a container of key/value pairs, the body replacing the
  value in place; an exception thrown by the body leaves the loop.
\<close>

fun forEach :: "('k \<Rightarrow> 'v \<Rightarrow> error + 'v) \<Rightarrow> ('k \<times> 'v) list \<Rightarrow> error + ('k \<times> 'v) list" where
  "forEach f [] = Inr []"
| "forEach f ((k, v) # kvs) =
     (case f k v of
        Inl e \<Rightarrow> Inl e
      | Inr v' \<Rightarrow> (case forEach f kvs of Inl e \<Rightarrow> Inl e | Inr kvs' \<Rightarrow> Inr ((k, v') # kvs')))"

text \<open>\<open>for (size_t r = r0; r < xs.size(); r++)\<close> with the body replacing \<open>xs.at(r)\<close> in place.\<close>

fun forIndex :: "(nat \<Rightarrow> 'a \<Rightarrow> error + 'a) \<Rightarrow> nat \<Rightarrow> 'a list \<Rightarrow> error + 'a list" where
  "forIndex f r [] = Inr []"
| "forIndex f r (x # xs) =
     (case f r x of
        Inl e \<Rightarrow> Inl e
      | Inr x' \<Rightarrow> (case forIndex f (Suc r) xs of Inl e \<Rightarrow> Inl e | Inr xs' \<Rightarrow> Inr (x' # xs')))"

subsection \<open>calcObservationEstimates\<close>

text \<open>
  The \<open>switch (obsType)\<close> of lines 100 to 167: the estimate and the baseline variance of one
  observable. \<open>rho\<close>, \<open>ie\<close>, \<open>T\<close>, \<open>I\<close> are the locals \<open>rho_r_s\<close>, \<open>dpsr_ie_r_s\<close>, \<open>dpsr_T_r_s\<close>,
  \<open>dpsr_I_r_s\<close>.
\<close>

definition calcEstimate ::
  "('t, 'nav, 'ic, 'im, 'tm, 'em) Externals \<Rightarrow> ('im, 'tm, 'em) ObservationEstimator \<Rightarrow>
   ObservationDifference \<Rightarrow> 't Receiver \<Rightarrow> Frequency \<Rightarrow> int \<Rightarrow> ReceiverSpecificData \<Rightarrow>
   real \<Rightarrow> real \<Rightarrow> real \<Rightarrow> real \<Rightarrow> real \<Rightarrow> ObservationType \<Rightarrow> ObservationData \<Rightarrow>
   error + ObservationData" where
  "calcEstimate X this obsDiff receiver fr fnum ro rho ie T I cn0 obsType obsData =
    (let satSys = getSatSys X fr in
     case obsType of
       Pseudorange \<Rightarrow>
         (case array_at (sysTimeDiffBias (recvClk receiver)) (toEnumeration X satSys) of
            Inl e \<Rightarrow> Inl e
          | Inr stdb \<Rightarrow>
              Inr (obsData
                \<lparr> estimate := rho + ie + T + I
                     + InsConst_C X
                       * (val (bias (recvClk receiver)) * b2d (obsDiff \<noteq> DoubleDifference)
                          - sat_bias (satClock ro) * b2d (obsDiff = NoDifference)
                          + val stdb
                          + (case interFrequencyBias receiver fr of
                               Some ifb \<Rightarrow> val ifb
                             | None \<Rightarrow> 0)),
                  measVar := psrMeasErrorVar X (gnssMeasurementErrorModel this) satSys
                               (satElevation ro) cn0 \<rparr>))
     | Carrier \<Rightarrow>
         (case array_at (sysTimeDiffBias (recvClk receiver)) (toEnumeration X satSys) of
            Inl e \<Rightarrow> Inl e
          | Inr stdb \<Rightarrow>
              Inr (obsData
                \<lparr> estimate := rho + ie + T - I
                     + InsConst_C X
                       * (val (bias (recvClk receiver)) * b2d (obsDiff \<noteq> DoubleDifference)
                          - sat_bias (satClock ro) * b2d (obsDiff = NoDifference)
                          + val stdb),
                  measVar := carrierMeasErrorVar X (gnssMeasurementErrorModel this) satSys
                               (satElevation ro) cn0 \<rparr>))
     | Doppler \<Rightarrow>
         (case array_at (sysTimeDiffDrift (recvClk receiver)) (toEnumeration X satSys) of
            Inl e \<Rightarrow> Inl e
          | Inr stdd \<Rightarrow>
              Inr (obsData
                \<lparr> estimate := dot (e_pLOS ro) (vminus (e_satVel ro) (e_vel receiver))
                     - calcSagnacRateCorrection X (e_pos receiver) (e_satPos ro)
                         (e_vel receiver) (e_satVel ro)
                     + InsConst_C X
                       * (val (drift (recvClk receiver)) * b2d (obsDiff \<noteq> DoubleDifference)
                          - sat_drift (satClock ro) * b2d (obsDiff = NoDifference)
                          + val stdd * b2d (obsDiff = NoDifference)),
                  measVar := psrRateMeasErrorVar X (gnssMeasurementErrorModel this) fr fnum
                               (satElevation ro) cn0 \<rparr>))
     | ObservationType_COUNT \<Rightarrow> Inr obsData)"

text \<open>The additions to \<open>measVar\<close> of lines 172 to 195, made when \<open>obsDiff == NoDifference\<close>.\<close>

definition addNoDifferenceVar ::
  "('t, 'nav, 'ic, 'im, 'tm, 'em) Externals \<Rightarrow> ('im, 'tm, 'em) ObservationEstimator \<Rightarrow>
   't Receiver \<Rightarrow> Frequency \<Rightarrow> int \<Rightarrow> 'nav \<Rightarrow> ReceiverSpecificData \<Rightarrow> real \<Rightarrow> real \<Rightarrow>
   ObservationType \<Rightarrow> ObservationData \<Rightarrow> ObservationData" where
  "addNoDifferenceVar X this receiver fr fnum nav ro T I obsType obsData =
    (let d1 = (if obsType = Pseudorange \<or> obsType = Carrier
               then obsData\<lparr> measVar := measVar obsData
                      + (calcSatellitePositionVariance X nav
                         + ionoErrorVar X I fr fnum
                         + tropoErrorVar X T (satElevation ro)) \<rparr>
               else obsData)
     in if obsType = Pseudorange
        then (let d2 = d1\<lparr> measVar := measVar d1
                            + codeBiasErrorVar X (gnssMeasurementErrorModel this) \<rparr>
              in case interFrequencyBias receiver fr of
                   Some ifb \<Rightarrow> d2\<lparr> measVar := measVar d2 + (stdDev ifb)\<^sup>2 \<rparr>
                 | None \<Rightarrow> d2)
        else d1)"

text \<open>The additions to \<open>measVar\<close> of lines 196 to 214, made when \<open>obsDiff != DoubleDifference\<close>.\<close>

definition addRecvClockVar ::
  "('t, 'nav, 'ic, 'im, 'tm, 'em) Externals \<Rightarrow> 't Receiver \<Rightarrow> Frequency \<Rightarrow>
   ObservationType \<Rightarrow> ObservationData \<Rightarrow> error + ObservationData" where
  "addRecvClockVar X receiver fr obsType obsData =
    (let satSys = getSatSys X fr in
     if obsType = Pseudorange \<or> obsType = Carrier
     then (case array_at (sysTimeDiffBias (recvClk receiver)) (toEnumeration X satSys) of
             Inl e \<Rightarrow> Inl e
           | Inr stdb \<Rightarrow>
               (let recvClockVariance = (InsConst_C X)\<^sup>2
                      * ((stdDev (bias (recvClk receiver)))\<^sup>2 + (stdDev stdb)\<^sup>2)
                in Inr (obsData\<lparr> measVar := measVar obsData + recvClockVariance \<rparr>)))
     else if obsType = Doppler
     then (case array_at (sysTimeDiffDrift (recvClk receiver)) (toEnumeration X satSys) of
             Inl e \<Rightarrow> Inl e
           | Inr stdd \<Rightarrow>
               (let recvClockVariance = (InsConst_C X)\<^sup>2
                      * ((stdDev (drift (recvClk receiver)))\<^sup>2 + (stdDev stdd)\<^sup>2)
                in Inr (obsData\<lparr> measVar := measVar obsData + recvClockVariance \<rparr>)))
     else Inr obsData)"

text \<open>The body of the loop over \<open>recvObs.obs\<close> (lines 97 to 217).\<close>

definition calcObsData ::
  "('t, 'nav, 'ic, 'im, 'tm, 'em) Externals \<Rightarrow> ('im, 'tm, 'em) ObservationEstimator \<Rightarrow>
   ObservationDifference \<Rightarrow> 't Receiver \<Rightarrow> Frequency \<Rightarrow> int \<Rightarrow> 'nav \<Rightarrow> ReceiverSpecificData \<Rightarrow>
   real \<Rightarrow> real \<Rightarrow> real \<Rightarrow> real \<Rightarrow> real \<Rightarrow> ObservationType \<Rightarrow> ObservationData \<Rightarrow>
   error + ObservationData" where
  "calcObsData X this obsDiff receiver fr fnum nav ro rho ie T I cn0 obsType obsData =
    (case calcEstimate X this obsDiff receiver fr fnum ro rho ie T I cn0 obsType obsData of
       Inl e \<Rightarrow> Inl e
     | Inr d0 \<Rightarrow>
         (let d1 = (if obsDiff = NoDifference
                    then addNoDifferenceVar X this receiver fr fnum nav ro T I obsType d0
                    else d0)
          in if obsDiff \<noteq> DoubleDifference
             then addRecvClockVar X receiver fr obsType d1
             else Inr d1))"

text \<open>
  The locals computed for one signal/receiver pair before the loop over the observables
  (lines 72 to 95): the geometric range \<open>rho_r_s\<close>, the tropospheric zenith delays and
  mapping factors \<open>tropo_r_s\<close>, the slant tropospheric delay \<open>dpsr_T_r_s\<close>, the ionospheric
  delay \<open>dpsr_I_r_s\<close>, the Sagnac correction \<open>dpsr_ie_r_s\<close> and \<open>cn0\<close>.
\<close>

definition calc_rho_r_s :: "'t Receiver \<Rightarrow> ReceiverSpecificData \<Rightarrow> real" where
  "calc_rho_r_s receiver ro = norm_v (vminus (e_satPos ro) (e_pos receiver))"

definition calc_tropo_r_s ::
  "('t, 'nav, 'ic, 'im, 'tm, 'em) Externals \<Rightarrow> ('im, 'tm, 'em) ObservationEstimator \<Rightarrow>
   't Receiver \<Rightarrow> ReceiverSpecificData \<Rightarrow> ZenithDelay" where
  "calc_tropo_r_s X this receiver ro =
     calcTroposphericDelayAndMapping X (insTime (gnssObs receiver)) (lla_pos receiver)
       (satElevation ro) (satAzimuth ro) (troposphereModels this)"

definition calc_dpsr_T_r_s ::
  "('t, 'nav, 'ic, 'im, 'tm, 'em) Externals \<Rightarrow> ('im, 'tm, 'em) ObservationEstimator \<Rightarrow>
   't Receiver \<Rightarrow> ReceiverSpecificData \<Rightarrow> real" where
  "calc_dpsr_T_r_s X this receiver ro =
     (let tropo_r_s = calc_tropo_r_s X this receiver ro
      in ZHD tropo_r_s * zhdMappingFactor tropo_r_s + ZWD tropo_r_s * zwdMappingFactor tropo_r_s)"

definition calc_dpsr_I_r_s ::
  "('t, 'nav, 'ic, 'im, 'tm, 'em) Externals \<Rightarrow> ('im, 'tm, 'em) ObservationEstimator \<Rightarrow>
   'ic \<Rightarrow> 't Receiver \<Rightarrow> Frequency \<Rightarrow> int \<Rightarrow> ReceiverSpecificData \<Rightarrow> real" where
  "calc_dpsr_I_r_s X this ionosphericCorrections receiver fr fnum ro =
     calcIonosphericDelay X (toGPSweekTow_tow X (insTime (gnssObs receiver))) fr fnum
       (lla_pos receiver) (satElevation ro) (satAzimuth ro)
       (ionosphereModel this) ionosphericCorrections"

definition calc_dpsr_ie_r_s ::
  "('t, 'nav, 'ic, 'im, 'tm, 'em) Externals \<Rightarrow> 't Receiver \<Rightarrow> ReceiverSpecificData \<Rightarrow> real" where
  "calc_dpsr_ie_r_s X receiver ro = calcSagnacCorrection X (e_pos receiver) (e_satPos ro)"

definition calc_cn0 :: "ReceiverSpecificData \<Rightarrow> real" where
  "calc_cn0 ro = (case CN0 ro of Some c \<Rightarrow> c | None \<Rightarrow> 1)"

text \<open>The body of the loop over the receivers (lines 65 to 218) for index \<open>r\<close>.\<close>

definition calcRecvObs ::
  "('t, 'nav, 'ic, 'im, 'tm, 'em) Externals \<Rightarrow> ('im, 'tm, 'em) ObservationEstimator \<Rightarrow>
   't Receiver list \<Rightarrow> 'ic \<Rightarrow> ObservationDifference \<Rightarrow> Frequency \<Rightarrow> int \<Rightarrow> 'nav \<Rightarrow>
   nat \<Rightarrow> ReceiverSpecificData \<Rightarrow> error + ReceiverSpecificData" where
  "calcRecvObs X this receivers ionosphericCorrections obsDiff fr fnum nav r ro =
    (case array_at receivers r of
       Inl e \<Rightarrow> Inl e
     | Inr receiver \<Rightarrow>
        (let rho = calc_rho_r_s receiver ro;
             tropo = calc_tropo_r_s X this receiver ro;
             T = calc_dpsr_T_r_s X this receiver ro;
             I = calc_dpsr_I_r_s X this ionosphericCorrections receiver fr fnum ro;
             ie = calc_dpsr_ie_r_s X receiver ro;
             ro1 = ro\<lparr> terms := (terms ro)\<lparr> rho_r_s := rho, tropoZenithDelay := tropo,
                                            dpsr_T_r_s := T, dpsr_I_r_s := I,
                                            dpsr_ie_r_s := ie \<rparr> \<rparr>;
             cn0 = calc_cn0 ro1
         in case forEach (calcObsData X this obsDiff receiver fr fnum nav ro1 rho ie T I cn0)
                   (obs ro1) of
              Inl e \<Rightarrow> Inl e
            | Inr obs' \<Rightarrow> Inr (ro1\<lparr> obs := obs' \<rparr>)))"

text \<open>The body of the loop over the signals (lines 60 to 219).\<close>

definition calcSignal ::
  "('t, 'nav, 'ic, 'im, 'tm, 'em) Externals \<Rightarrow> ('im, 'tm, 'em) ObservationEstimator \<Rightarrow>
   't Receiver list \<Rightarrow> 'ic \<Rightarrow> ObservationDifference \<Rightarrow> SatSigId \<Rightarrow> 'nav SignalObservation \<Rightarrow>
   error + 'nav SignalObservation" where
  "calcSignal X this receivers ionosphericCorrections obsDiff satSigId observation =
    (case forIndex (calcRecvObs X this receivers ionosphericCorrections obsDiff
                      (freq satSigId) (freqNum observation) (navData observation))
            0 (recvObs observation) of
       Inl e \<Rightarrow> Inl e
     | Inr rs \<Rightarrow> Inr (observation\<lparr> recvObs := rs \<rparr>))"

definition calcObservationEstimates ::
  "('t, 'nav, 'ic, 'im, 'tm, 'em) Externals \<Rightarrow> ('im, 'tm, 'em) ObservationEstimator \<Rightarrow>
   'nav Observations \<Rightarrow> 't Receiver list \<Rightarrow> 'ic \<Rightarrow> ObservationDifference \<Rightarrow>
   error + 'nav Observations" where
  "calcObservationEstimates X this observations receivers ionosphericCorrections obsDiff =
    (case forEach (calcSignal X this receivers ionosphericCorrections obsDiff)
            (signals observations) of
       Inl e \<Rightarrow> Inl e
     | Inr sigs \<Rightarrow> Inr (observations\<lparr> signals := sigs \<rparr>))"

text \<open>
  Reading the result: the data of observable \<open>obsType\<close> of receiver \<open>r\<close> for signal \<open>satSigId\<close>,
  when the set has it.
\<close>

definition obsDataAt ::
  "'nav Observations \<Rightarrow> SatSigId \<Rightarrow> nat \<Rightarrow> ObservationType \<Rightarrow> ObservationData option" where
  "obsDataAt observations satSigId r obsType =
     (case map_of (signals observations) satSigId of
        None \<Rightarrow> None
      | Some observation \<Rightarrow>
          if r < length (recvObs observation)
          then map_of (obs (recvObs observation ! r)) obsType
          else None)"

text \<open>
  The body of the loop over the observables with the locals of its signal/receiver pair
  filled in: what the call computes for observable \<open>obsType\<close> of receiver \<open>receiver\<close>.
\<close>

definition pairObsData ::
  "('t, 'nav, 'ic, 'im, 'tm, 'em) Externals \<Rightarrow> ('im, 'tm, 'em) ObservationEstimator \<Rightarrow> 'ic \<Rightarrow>
   ObservationDifference \<Rightarrow> 't Receiver \<Rightarrow> Frequency \<Rightarrow> int \<Rightarrow> 'nav \<Rightarrow> ReceiverSpecificData \<Rightarrow>
   ObservationType \<Rightarrow> ObservationData \<Rightarrow> error + ObservationData" where
  "pairObsData X this ic obsDiff receiver fr fnum nav ro obsType obsData =
     calcObsData X this obsDiff receiver fr fnum nav ro
       (calc_rho_r_s receiver ro) (calc_dpsr_ie_r_s X receiver ro)
       (calc_dpsr_T_r_s X this receiver ro)
       (calc_dpsr_I_r_s X this ic receiver fr fnum ro) (calc_cn0 ro) obsType obsData"

text \<open>
  The entry of the per-system arrays that the estimate of an observable reads with \<open>at\<close>
  exists. \<open>ObservationType_COUNT\<close> reads none.
\<close>

definition sysTimeDiffInRange ::
  "('t, 'nav, 'ic, 'im, 'tm, 'em) Externals \<Rightarrow> 't Receiver \<Rightarrow> Frequency \<Rightarrow> ObservationType \<Rightarrow> bool" where
  "sysTimeDiffInRange X receiver fr obsType =
     (case obsType of
        Pseudorange \<Rightarrow>
          toEnumeration X (getSatSys X fr) < length (sysTimeDiffBias (recvClk receiver))
      | Carrier \<Rightarrow>
          toEnumeration X (getSatSys X fr) < length (sysTimeDiffBias (recvClk receiver))
      | Doppler \<Rightarrow>
          toEnumeration X (getSatSys X fr) < length (sysTimeDiffDrift (recvClk receiver))
      | ObservationType_COUNT \<Rightarrow> True)"

text \<open>
  A well-formed input: every receiver index of the set has its slot in the receivers array,
  and every per-system entry that is read exists.
\<close>

definition wellFormed ::
  "('t, 'nav, 'ic, 'im, 'tm, 'em) Externals \<Rightarrow> 'nav Observations \<Rightarrow> 't Receiver list \<Rightarrow> bool" where
  "wellFormed X observations receivers =
     (\<forall>(satSigId, observation) \<in> set (signals observations).
        length (recvObs observation) \<le> length receivers \<and>
        (\<forall>r < length (recvObs observation).
           \<forall>(obsType, obsData) \<in> set (obs (recvObs observation ! r)).
             sysTimeDiffInRange X (receivers ! r) (freq satSigId) obsType))"

text \<open>The terms of the estimates that the claims name, read from the receiver state.\<close>

definition sysTimeDiffBiasOf ::
  "('t, 'nav, 'ic, 'im, 'tm, 'em) Externals \<Rightarrow> 't Receiver \<Rightarrow> Frequency \<Rightarrow> UncertainValue" where
  "sysTimeDiffBiasOf X receiver fr =
     sysTimeDiffBias (recvClk receiver) ! toEnumeration X (getSatSys X fr)"

definition sysTimeDiffDriftOf ::
  "('t, 'nav, 'ic, 'im, 'tm, 'em) Externals \<Rightarrow> 't Receiver \<Rightarrow> Frequency \<Rightarrow> UncertainValue" where
  "sysTimeDiffDriftOf X receiver fr =
     sysTimeDiffDrift (recvClk receiver) ! toEnumeration X (getSatSys X fr)"

definition interFrequencyBiasValue :: "'t Receiver \<Rightarrow> Frequency \<Rightarrow> real" where
  "interFrequencyBiasValue receiver fr =
     (case interFrequencyBias receiver fr of Some ifb \<Rightarrow> val ifb | None \<Rightarrow> 0)"

definition interFrequencyBiasVar :: "'t Receiver \<Rightarrow> Frequency \<Rightarrow> real" where
  "interFrequencyBiasVar receiver fr =
     (case interFrequencyBias receiver fr of Some ifb \<Rightarrow> (stdDev ifb)\<^sup>2 | None \<Rightarrow> 0)"

text \<open>
  An observation set with the fields that \<open>calcObservationEstimates\<close> writes (the correction
  terms, \<open>estimate\<close> and \<open>measVar\<close>) blanked out: two sets with the same image differ in
  those fields only.
\<close>

definition blankTerms :: Terms where
  "blankTerms = \<lparr> rho_r_s = 0,
                  tropoZenithDelay = \<lparr> ZHD = 0, ZWD = 0, zhdMappingFactor = 0, zwdMappingFactor = 0 \<rparr>,
                  dpsr_T_r_s = 0, dpsr_I_r_s = 0, dpsr_ie_r_s = 0 \<rparr>"

definition blankObsData :: "ObservationData \<Rightarrow> ObservationData" where
  "blankObsData d = d\<lparr> estimate := 0, measVar := 0 \<rparr>"

definition blankRecvObs :: "ReceiverSpecificData \<Rightarrow> ReceiverSpecificData" where
  "blankRecvObs ro = ro\<lparr> terms := blankTerms,
                         obs := map (\<lambda>(t, d). (t, blankObsData d)) (obs ro) \<rparr>"

definition blankSignal :: "'nav SignalObservation \<Rightarrow> 'nav SignalObservation" where
  "blankSignal observation = observation\<lparr> recvObs := map blankRecvObs (recvObs observation) \<rparr>"

definition blankObservations :: "'nav Observations \<Rightarrow> 'nav Observations" where
  "blankObservations observations =
     observations\<lparr> signals := map (\<lambda>(k, v). (k, blankSignal v)) (signals observations) \<rparr>"

section \<open>The process time source (TimeBase.cpp)\<close>

text \<open>
  The three globals of the file. \<open>InsTime\<close> is declared elsewhere: it is the type parameter
  \<open>'t\<close>, and its comparison \<open>operator>\<close> is the order of \<open>'t\<close>. A reading of
  \<open>std::chrono::steady_clock\<close> is an integer count of ticks, passed in as \<open>now\<close>.
  \<open>LOG_WARN\<close> writes to the log only.
\<close>

datatype Mode = REAL_TIME | POST_PROCESSING

record 't TimeBase =
  timeMode :: Mode
  currentTime :: 't
  currentTimeComputer :: int

definition SetMode :: "Mode \<Rightarrow> 't TimeBase \<Rightarrow> 't TimeBase" where
  "SetMode mode g = g\<lparr> timeMode := mode \<rparr>"

text \<open>\<open>isEmpty\<close> is \<open>InsTime::empty\<close> and \<open>addDuration\<close> is \<open>InsTime + duration\<close>.\<close>

definition GetCurrentTime :: "('t \<Rightarrow> bool) \<Rightarrow> ('t \<Rightarrow> int \<Rightarrow> 't) \<Rightarrow> int \<Rightarrow> 't TimeBase \<Rightarrow> 't" where
  "GetCurrentTime isEmpty addDuration now g =
     (if timeMode g = POST_PROCESSING \<or> isEmpty (currentTime g)
      then currentTime g
      else (let elapsed = now - currentTimeComputer g in addDuration (currentTime g) elapsed))"

definition SetCurrentTime :: "int \<Rightarrow> 't::order \<Rightarrow> 't TimeBase \<Rightarrow> 't TimeBase" where
  "SetCurrentTime now insTime_new g =
     (if insTime_new > currentTime g
      then g\<lparr> currentTimeComputer := now, currentTime := insTime_new \<rparr>
      else g)"

text \<open>A sequence of calls of \<open>SetCurrentTime\<close>, each with the clock reading at its time.\<close>

fun SetCurrentTime_calls :: "(int \<times> 't::order) list \<Rightarrow> 't TimeBase \<Rightarrow> 't TimeBase" where
  "SetCurrentTime_calls [] g = g"
| "SetCurrentTime_calls ((now, insTime_new) # calls) g =
     SetCurrentTime_calls calls (SetCurrentTime now insTime_new g)"

section \<open>The call as a state transformer\<close>

text \<open>
  Everything the call can reach: its arguments, the estimator object \<open>this\<close> (the member
  function is not \<open>const\<close>) and the globals of the time source.
\<close>

record ('t, 'nav, 'ic, 'im, 'tm, 'em) World =
  w_observations :: "'nav Observations"
  w_receivers :: "'t Receiver list"
  w_ionosphericCorrections :: 'ic
  w_this :: "('im, 'tm, 'em) ObservationEstimator"
  w_time :: "'t TimeBase"

text \<open>
  The references of the source into the observation set: \<open>observation\<close> is entry \<open>i\<close> of
  \<open>observations.signals\<close>, \<open>recvObs\<close> is \<open>observation.recvObs.at(r)\<close>, \<open>obsData\<close> is entry \<open>j\<close>
  of \<open>recvObs.obs\<close>. A read goes through the state, and an assignment to a field behind a
  reference is a write into the state. The loops below only use indices inside the
  containers.
\<close>

definition getSignal ::
  "('t, 'nav, 'ic, 'im, 'tm, 'em) World \<Rightarrow> nat \<Rightarrow> SatSigId \<times> 'nav SignalObservation" where
  "getSignal w i = signals (w_observations w) ! i"

definition getRecvObs ::
  "('t, 'nav, 'ic, 'im, 'tm, 'em) World \<Rightarrow> nat \<Rightarrow> nat \<Rightarrow> ReceiverSpecificData" where
  "getRecvObs w i r = recvObs (snd (getSignal w i)) ! r"

definition getObsData ::
  "('t, 'nav, 'ic, 'im, 'tm, 'em) World \<Rightarrow> nat \<Rightarrow> nat \<Rightarrow> nat \<Rightarrow> ObservationType \<times> ObservationData" where
  "getObsData w i r j = obs (getRecvObs w i r) ! j"

definition setRecvObs ::
  "nat \<Rightarrow> nat \<Rightarrow> ReceiverSpecificData \<Rightarrow> ('t, 'nav, 'ic, 'im, 'tm, 'em) World \<Rightarrow>
   ('t, 'nav, 'ic, 'im, 'tm, 'em) World" where
  "setRecvObs i r ro w =
     (let sigs = signals (w_observations w);
          satSigId = fst (sigs ! i);
          observation = snd (sigs ! i)
      in w\<lparr> w_observations := (w_observations w)
             \<lparr> signals := sigs[i := (satSigId,
                  observation\<lparr> recvObs := (recvObs observation)[r := ro] \<rparr>)] \<rparr> \<rparr>)"

definition setObsData ::
  "nat \<Rightarrow> nat \<Rightarrow> nat \<Rightarrow> ObservationData \<Rightarrow> ('t, 'nav, 'ic, 'im, 'tm, 'em) World \<Rightarrow>
   ('t, 'nav, 'ic, 'im, 'tm, 'em) World" where
  "setObsData i r j obsData w =
     (let ro = getRecvObs w i r;
          obsType = fst (obs ro ! j)
      in setRecvObs i r (ro\<lparr> obs := (obs ro)[j := (obsType, obsData)] \<rparr>) w)"

text \<open>
  A counted loop: \<open>n\<close> iterations are left and \<open>i\<close> is the next index. An exception thrown by
  the body leaves the loop with the state as it is at the throw.
\<close>

fun forRange ::
  "(nat \<Rightarrow> 's \<Rightarrow> 's \<times> error option) \<Rightarrow> nat \<Rightarrow> nat \<Rightarrow> 's \<Rightarrow> 's \<times> error option" where
  "forRange body 0 i s = (s, None)"
| "forRange body (Suc n) i s =
     (case body i s of
        (s', Some e) \<Rightarrow> (s', Some e)
      | (s', None) \<Rightarrow> forRange body n (Suc i) s')"

text \<open>
  The body of the loop over the observables (lines 97 to 217): the \<open>switch\<close> assigns
  \<open>estimate\<close> and \<open>measVar\<close>, then the two \<open>if\<close> blocks add to \<open>measVar\<close> in place. The
  right-hand sides are the expressions of \<open>calcEstimate\<close>, \<open>addNoDifferenceVar\<close> and
  \<open>addRecvClockVar\<close>, evaluated on what the references hold at that moment.
\<close>

definition obsBody ::
  "('t, 'nav, 'ic, 'im, 'tm, 'em) Externals \<Rightarrow> ObservationDifference \<Rightarrow> nat \<Rightarrow> nat \<Rightarrow>
   real \<Rightarrow> real \<Rightarrow> real \<Rightarrow> real \<Rightarrow> real \<Rightarrow> nat \<Rightarrow>
   ('t, 'nav, 'ic, 'im, 'tm, 'em) World \<Rightarrow> ('t, 'nav, 'ic, 'im, 'tm, 'em) World \<times> error option" where
  "obsBody X obsDiff i r rho ie T I cn0 j w =
    (let fr = freq (fst (getSignal w i));
         fnum = freqNum (snd (getSignal w i));
         nav = navData (snd (getSignal w i));
         receiver = w_receivers w ! r;
         obsType = fst (getObsData w i r j)
     in case calcEstimate X (w_this w) obsDiff receiver fr fnum (getRecvObs w i r)
               rho ie T I cn0 obsType (snd (getObsData w i r j)) of
          Inl e \<Rightarrow> (w, Some e)
        | Inr d0 \<Rightarrow>
           (let w0 = setObsData i r j d0 w;
                w1 = (if obsDiff = NoDifference
                      then setObsData i r j
                             (addNoDifferenceVar X (w_this w0) receiver fr fnum nav
                                (getRecvObs w0 i r) T I obsType (snd (getObsData w0 i r j))) w0
                      else w0)
            in if obsDiff \<noteq> DoubleDifference
               then (case addRecvClockVar X receiver fr obsType (snd (getObsData w1 i r j)) of
                       Inl e \<Rightarrow> (w1, Some e)
                     | Inr d2 \<Rightarrow> (setObsData i r j d2 w1, None))
               else (w1, None)))"

text \<open>The body of the loop over the receivers (lines 65 to 218).\<close>

definition recvBody ::
  "('t, 'nav, 'ic, 'im, 'tm, 'em) Externals \<Rightarrow> ObservationDifference \<Rightarrow> nat \<Rightarrow> nat \<Rightarrow>
   ('t, 'nav, 'ic, 'im, 'tm, 'em) World \<Rightarrow> ('t, 'nav, 'ic, 'im, 'tm, 'em) World \<times> error option" where
  "recvBody X obsDiff i r w =
    (case array_at (w_receivers w) r of
       Inl e \<Rightarrow> (w, Some e)
     | Inr receiver \<Rightarrow>
        (let fr = freq (fst (getSignal w i));
             fnum = freqNum (snd (getSignal w i));
             ro = getRecvObs w i r;
             rho = calc_rho_r_s receiver ro;
             tropo = calc_tropo_r_s X (w_this w) receiver ro;
             T = calc_dpsr_T_r_s X (w_this w) receiver ro;
             I = calc_dpsr_I_r_s X (w_this w) (w_ionosphericCorrections w) receiver fr fnum ro;
             ie = calc_dpsr_ie_r_s X receiver ro;
             w1 = setRecvObs i r
                    (ro\<lparr> terms := (terms ro)\<lparr> rho_r_s := rho, tropoZenithDelay := tropo,
                                                dpsr_T_r_s := T, dpsr_I_r_s := I,
                                                dpsr_ie_r_s := ie \<rparr> \<rparr>) w;
             cn0 = calc_cn0 (getRecvObs w1 i r)
         in forRange (obsBody X obsDiff i r rho ie T I cn0)
              (length (obs (getRecvObs w1 i r))) 0 w1))"

text \<open>The body of the loop over the signals (lines 60 to 219), and the whole call.\<close>

definition signalBody ::
  "('t, 'nav, 'ic, 'im, 'tm, 'em) Externals \<Rightarrow> ObservationDifference \<Rightarrow> nat \<Rightarrow>
   ('t, 'nav, 'ic, 'im, 'tm, 'em) World \<Rightarrow> ('t, 'nav, 'ic, 'im, 'tm, 'em) World \<times> error option" where
  "signalBody X obsDiff i w =
     forRange (recvBody X obsDiff i) (length (recvObs (snd (getSignal w i)))) 0 w"

definition calcObservationEstimates_in_place ::
  "('t, 'nav, 'ic, 'im, 'tm, 'em) Externals \<Rightarrow> ObservationDifference \<Rightarrow>
   ('t, 'nav, 'ic, 'im, 'tm, 'em) World \<Rightarrow> ('t, 'nav, 'ic, 'im, 'tm, 'em) World \<times> error option" where
  "calcObservationEstimates_in_place X obsDiff w =
     forRange (signalBody X obsDiff) (length (signals (w_observations w))) 0 w"

text \<open>
  Two states that differ at most in the fields the call computes: the correction terms,
  \<open>estimate\<close> and \<open>measVar\<close> of the entries of the observation set.
\<close>

definition sameButComputed ::
  "('t, 'nav, 'ic, 'im, 'tm, 'em) World \<Rightarrow> ('t, 'nav, 'ic, 'im, 'tm, 'em) World \<Rightarrow> bool" where
  "sameButComputed w w' =
     (w_receivers w' = w_receivers w \<and>
      w_ionosphericCorrections w' = w_ionosphericCorrections w \<and>
      w_this w' = w_this w \<and>
      w_time w' = w_time w \<and>
      blankObservations (w_observations w') = blankObservations (w_observations w))"

text \<open>Writes of a whole signal list and of the receiver list of one signal, for the loop
  invariants.\<close>

definition setSignals ::
  "(SatSigId \<times> 'nav SignalObservation) list \<Rightarrow> ('t, 'nav, 'ic, 'im, 'tm, 'em) World \<Rightarrow>
   ('t, 'nav, 'ic, 'im, 'tm, 'em) World" where
  "setSignals sigs w = w\<lparr> w_observations := (w_observations w)\<lparr> signals := sigs \<rparr> \<rparr>"

definition setRecvObsList ::
  "nat \<Rightarrow> ReceiverSpecificData list \<Rightarrow> ('t, 'nav, 'ic, 'im, 'tm, 'em) World \<Rightarrow>
   ('t, 'nav, 'ic, 'im, 'tm, 'em) World" where
  "setRecvObsList i rs w =
     setSignals ((signals (w_observations w))
        [i := (fst (getSignal w i), (snd (getSignal w i))\<lparr> recvObs := rs \<rparr>)]) w"

section \<open>A concrete epoch\<close>

text \<open>
  One GPS-like signal seen by one receiver, with all three observables, and providers that
  return fixed values. The theorems below are instantiated at it.
\<close>

definition ex_X :: "(unit, unit, unit, unit, unit, unit) Externals" where
  "ex_X = \<lparr> InsConst_C = 299792458,
            getSatSys = (\<lambda>f. 0),
            toEnumeration = (\<lambda>s. s),
            toGPSweekTow_tow = (\<lambda>t. 0),
            calcTroposphericDelayAndMapping =
              (\<lambda>t p el az m. \<lparr> ZHD = 2, ZWD = 1, zhdMappingFactor = 3, zwdMappingFactor = 4 \<rparr>),
            calcIonosphericDelay = (\<lambda>tow f n p el az m c. 5),
            calcSagnacCorrection = (\<lambda>p q. 7),
            calcSagnacRateCorrection = (\<lambda>p q v w. 1),
            calcSatellitePositionVariance = (\<lambda>n. 2),
            ionoErrorVar = (\<lambda>d f n. 3),
            tropoErrorVar = (\<lambda>d el. 4),
            psrMeasErrorVar = (\<lambda>m s el c. 1),
            carrierMeasErrorVar = (\<lambda>m s el c. 1 / 100),
            psrRateMeasErrorVar = (\<lambda>m f n el c. 1 / 10),
            codeBiasErrorVar = (\<lambda>m. 6) \<rparr>"

definition ex_this :: "(unit, unit, unit) ObservationEstimator" where
  "ex_this = \<lparr> ionosphereModel = (), troposphereModels = (), gnssMeasurementErrorModel = () \<rparr>"

definition ex_receiver :: "unit Receiver" where
  "ex_receiver =
     \<lparr> e_pos = (0, 0, 0), e_vel = (0, 0, 0), lla_pos = (0, 0, 0),
       recvClk = \<lparr> bias = \<lparr> val = 2, stdDev = 1 \<rparr>,
                   drift = \<lparr> val = 3, stdDev = 2 \<rparr>,
                   sysTimeDiffBias = [\<lparr> val = 5, stdDev = 3 \<rparr>],
                   sysTimeDiffDrift = [\<lparr> val = 7, stdDev = 4 \<rparr>] \<rparr>,
       interFrequencyBias = [0 \<mapsto> \<lparr> val = 11, stdDev = 5 \<rparr>],
       gnssObs = \<lparr> insTime = () \<rparr> \<rparr>"

definition ex_satSigId :: SatSigId where
  "ex_satSigId = \<lparr> freq = 0, satNum = 1 \<rparr>"

definition ex_obsData :: ObservationData where
  "ex_obsData = \<lparr> estimate = 0, measurement = 0, measVar = 0 \<rparr>"

definition ex_recvObs :: ReceiverSpecificData where
  "ex_recvObs =
     \<lparr> e_satPos = (20000000, 0, 0), e_satVel = (100, 0, 0), e_pLOS = (1, 0, 0),
       satClock = \<lparr> sat_bias = 13, sat_drift = 17 \<rparr>,
       satElevation = 1, satAzimuth = 0, CN0 = None,
       terms = blankTerms,
       obs = [(Pseudorange, ex_obsData), (Carrier, ex_obsData), (Doppler, ex_obsData)] \<rparr>"

definition ex_observations :: "unit Observations" where
  "ex_observations =
     \<lparr> signals = [(ex_satSigId, \<lparr> recvObs = [ex_recvObs], freqNum = 0, navData = () \<rparr>)] \<rparr>"

text \<open>The estimate that a call leaves for one observable; \<open>None\<close> when the call throws or
  the set has no such observable.\<close>

definition estimateAt ::
  "error + 'nav Observations \<Rightarrow> SatSigId \<Rightarrow> nat \<Rightarrow> ObservationType \<Rightarrow> real option" where
  "estimateAt res satSigId r obsType =
     (case res of
        Inl e \<Rightarrow> None
      | Inr observations' \<Rightarrow> map_option estimate (obsDataAt observations' satSigId r obsType))"

text \<open>The receiver of the epoch with its per-system time differences set to zero.\<close>

definition ex_receiver_noSys :: "unit Receiver" where
  "ex_receiver_noSys =
     ex_receiver\<lparr> recvClk := (recvClk ex_receiver)
        \<lparr> sysTimeDiffBias := [\<lparr> val = 0, stdDev = 3 \<rparr>],
          sysTimeDiffDrift := [\<lparr> val = 0, stdDev = 4 \<rparr>] \<rparr> \<rparr>"

text \<open>The receiver of the epoch without inter-frequency biases.\<close>

definition ex_receiver_noIfb :: "unit Receiver" where
  "ex_receiver_noIfb = ex_receiver\<lparr> interFrequencyBias := Map.empty \<rparr>"

text \<open>The same surroundings with other troposphere and ionosphere providers.\<close>

definition ex_X_atmosphere :: "(unit, unit, unit, unit, unit, unit) Externals" where
  "ex_X_atmosphere =
     ex_X\<lparr> calcTroposphericDelayAndMapping :=
              (\<lambda>t p el az m. \<lparr> ZHD = 23, ZWD = 2, zhdMappingFactor = 1, zwdMappingFactor = 5 \<rparr>),
            calcIonosphericDelay := (\<lambda>tow f n p el az m c. 40) \<rparr>"

text \<open>
  The scenario of one satellite and one receiver at a range of 20,000,000 m, with all
  velocities, clock terms, atmospheric delays and Sagnac corrections zero.
\<close>

definition sc_X :: "(unit, unit, unit, unit, unit, unit) Externals" where
  "sc_X = ex_X\<lparr> calcTroposphericDelayAndMapping :=
                  (\<lambda>t p el az m. \<lparr> ZHD = 0, ZWD = 0, zhdMappingFactor = 1, zwdMappingFactor = 1 \<rparr>),
                calcIonosphericDelay := (\<lambda>tow f n p el az m c. 0),
                calcSagnacCorrection := (\<lambda>p q. 0),
                calcSagnacRateCorrection := (\<lambda>p q v w. 0) \<rparr>"

definition sc_receiver :: "unit Receiver" where
  "sc_receiver =
     \<lparr> e_pos = (0, 0, 0), e_vel = (0, 0, 0), lla_pos = (0, 0, 0),
       recvClk = \<lparr> bias = \<lparr> val = 0, stdDev = 1 \<rparr>,
                   drift = \<lparr> val = 0, stdDev = 2 \<rparr>,
                   sysTimeDiffBias = [\<lparr> val = 0, stdDev = 3 \<rparr>],
                   sysTimeDiffDrift = [\<lparr> val = 0, stdDev = 4 \<rparr>] \<rparr>,
       interFrequencyBias = Map.empty,
       gnssObs = \<lparr> insTime = () \<rparr> \<rparr>"

definition sc_recvObs :: ReceiverSpecificData where
  "sc_recvObs =
     \<lparr> e_satPos = (20000000, 0, 0), e_satVel = (0, 0, 0), e_pLOS = (1, 0, 0),
       satClock = \<lparr> sat_bias = 0, sat_drift = 0 \<rparr>,
       satElevation = 1, satAzimuth = 0, CN0 = None,
       terms = blankTerms,
       obs = [(Pseudorange, ex_obsData), (Carrier, ex_obsData), (Doppler, ex_obsData)] \<rparr>"

definition sc_observations :: "unit Observations" where
  "sc_observations =
     \<lparr> signals = [(ex_satSigId, \<lparr> recvObs = [sc_recvObs], freqNum = 0, navData = () \<rparr>)] \<rparr>"

text \<open>The state around a call on the epoch.\<close>

definition ex_world :: "(unit, unit, unit, unit, unit, unit) World" where
  "ex_world = \<lparr> w_observations = ex_observations, w_receivers = [ex_receiver],
                w_ionosphericCorrections = (), w_this = ex_this,
                w_time = \<lparr> timeMode = POST_PROCESSING, currentTime = (),
                           currentTimeComputer = 0 \<rparr> \<rparr>"

text \<open>A receiver whose per-system drift array is empty: reading it throws.\<close>

definition ex_receiver_noDrift :: "unit Receiver" where
  "ex_receiver_noDrift =
     ex_receiver\<lparr> recvClk := (recvClk ex_receiver)\<lparr> sysTimeDiffDrift := [] \<rparr> \<rparr>"

definition ex_world_throwing :: "(unit, unit, unit, unit, unit, unit) World" where
  "ex_world_throwing = ex_world\<lparr> w_receivers := [ex_receiver_noDrift] \<rparr>"

section \<open>Properties of the iteration helpers\<close>

lemma forEach_map_of_out:
  "forEach f xs = Inr ys \<Longrightarrow> map_of ys k = Some w \<Longrightarrow> \<exists>v. map_of xs k = Some v \<and> f k v = Inr w"
proof (induction xs arbitrary: ys)
  case Nil
  then show ?case by simp
next
  case (Cons a xs)
  obtain k0 v0 where a: "a = (k0, v0)" by (cases a)
  from Cons.prems(1) a obtain v' ys' where
    fv: "f k0 v0 = Inr v'" and rest: "forEach f xs = Inr ys'" and ys: "ys = (k0, v') # ys'"
    by (auto split: sum.splits)
  show ?case
  proof (cases "k = k0")
    case True
    with Cons.prems(2) ys fv a show ?thesis by simp
  next
    case False
    with Cons.prems(2) ys have "map_of ys' k = Some w" by simp
    from Cons.IH [OF rest this] False a show ?thesis by simp
  qed
qed

lemma forEach_map_of_in:
  "forEach f xs = Inr ys \<Longrightarrow> map_of xs k = Some v \<Longrightarrow> \<exists>w. map_of ys k = Some w \<and> f k v = Inr w"
proof (induction xs arbitrary: ys)
  case Nil
  then show ?case by simp
next
  case (Cons a xs)
  obtain k0 v0 where a: "a = (k0, v0)" by (cases a)
  from Cons.prems(1) a obtain v' ys' where
    fv: "f k0 v0 = Inr v'" and rest: "forEach f xs = Inr ys'" and ys: "ys = (k0, v') # ys'"
    by (auto split: sum.splits)
  show ?case
  proof (cases "k = k0")
    case True
    with Cons.prems(2) ys fv a show ?thesis by simp
  next
    case False
    with Cons.prems(2) a have "map_of xs k = Some v" by simp
    from Cons.IH [OF rest this] False ys show ?thesis by simp
  qed
qed

lemma forEach_total:
  "(\<And>k v. (k, v) \<in> set xs \<Longrightarrow> \<exists>w. f k v = Inr w) \<Longrightarrow> \<exists>ys. forEach f xs = Inr ys"
proof (induction xs)
  case Nil
  then show ?case by simp
next
  case (Cons a xs)
  obtain k0 v0 where a: "a = (k0, v0)" by (cases a)
  from Cons.prems a obtain w where w: "f k0 v0 = Inr w" by auto
  from Cons obtain ys where "forEach f xs = Inr ys" by auto
  with w a show ?case by simp
qed

lemma forIndex_nth:
  "forIndex f n xs = Inr ys \<Longrightarrow>
     length ys = length xs \<and> (\<forall>i<length xs. f (n + i) (xs ! i) = Inr (ys ! i))"
proof (induction xs arbitrary: n ys)
  case Nil
  then show ?case by simp
next
  case (Cons x xs)
  from Cons.prems obtain x' ys' where
    fx: "f n x = Inr x'" and rest: "forIndex f (Suc n) xs = Inr ys'" and ys: "ys = x' # ys'"
    by (auto split: sum.splits)
  from Cons.IH [OF rest] have len: "length ys' = length xs"
    and nth: "\<And>i. i < length xs \<Longrightarrow> f (Suc n + i) (xs ! i) = Inr (ys' ! i)" by auto
  show ?case
  proof (intro conjI allI impI)
    show "length ys = length (x # xs)" using len ys by simp
  next
    fix i assume "i < length (x # xs)"
    then show "f (n + i) ((x # xs) ! i) = Inr (ys ! i)"
      using fx nth ys by (cases i) auto
  qed
qed

lemma forIndex_total:
  "(\<And>i. i < length xs \<Longrightarrow> \<exists>y. f (n + i) (xs ! i) = Inr y) \<Longrightarrow> \<exists>ys. forIndex f n xs = Inr ys"
proof (induction xs arbitrary: n)
  case Nil
  then show ?case by simp
next
  case (Cons x xs)
  from Cons.prems [of 0] obtain y where y: "f n x = Inr y" by auto
  have "\<exists>ys. forIndex f (Suc n) xs = Inr ys"
  proof (rule Cons.IH)
    fix i assume "i < length xs"
    with Cons.prems [of "Suc i"] show "\<exists>y. f (Suc n + i) (xs ! i) = Inr y" by simp
  qed
  then obtain ys where "forIndex f (Suc n) xs = Inr ys" ..
  with y show ?case by simp
qed

section \<open>What the call computes for one observable\<close>

lemma calcEstimate_terms_irrelevant:
  "calcEstimate X this obsDiff receiver fr fnum (ro\<lparr> terms := tr \<rparr>) rho ie T I cn0 t d
     = calcEstimate X this obsDiff receiver fr fnum ro rho ie T I cn0 t d"
  by (cases t) (simp_all add: calcEstimate_def Let_def split: sum.splits)

lemma addNoDifferenceVar_terms_irrelevant:
  "addNoDifferenceVar X this receiver fr fnum nav (ro\<lparr> terms := tr \<rparr>) T I t d
     = addNoDifferenceVar X this receiver fr fnum nav ro T I t d"
  by (simp add: addNoDifferenceVar_def)

lemma calcObsData_terms_irrelevant:
  "calcObsData X this obsDiff receiver fr fnum nav (ro\<lparr> terms := tr \<rparr>) rho ie T I cn0 t d
     = calcObsData X this obsDiff receiver fr fnum nav ro rho ie T I cn0 t d"
  by (simp add: calcObsData_def calcEstimate_terms_irrelevant
      addNoDifferenceVar_terms_irrelevant Let_def split: sum.splits)

lemma calcObsData_terms_irrelevant_fun:
  "calcObsData X this obsDiff receiver fr fnum nav (ro\<lparr> terms := tr \<rparr>) rho ie T I cn0
     = calcObsData X this obsDiff receiver fr fnum nav ro rho ie T I cn0"
  by (intro ext) (rule calcObsData_terms_irrelevant)

lemma calc_cn0_terms: "calc_cn0 (ro\<lparr> terms := tr \<rparr>) = calc_cn0 ro"
  by (simp add: calc_cn0_def)

lemma calcRecvObs_entry:
  assumes "calcRecvObs X this receivers ic obsDiff fr fnum nav r ro = Inr ro'"
    and "map_of (obs ro') t = Some d'"
  shows "r < length receivers \<and>
         (\<exists>d. map_of (obs ro) t = Some d \<and>
              pairObsData X this ic obsDiff (receivers ! r) fr fnum nav ro t d = Inr d')"
proof -
  from assms(1) have r: "r < length receivers"
    by (auto simp: calcRecvObs_def array_at_def split: if_splits)
  let ?rc = "receivers ! r"
  let ?f = "calcObsData X this obsDiff ?rc fr fnum nav ro
       (calc_rho_r_s ?rc ro) (calc_dpsr_ie_r_s X ?rc ro)
       (calc_dpsr_T_r_s X this ?rc ro)
       (calc_dpsr_I_r_s X this ic ?rc fr fnum ro) (calc_cn0 ro)"
  from assms(1) r obtain os where fe: "forEach ?f (obs ro) = Inr os" and ro': "obs ro' = os"
    by (auto simp: calcRecvObs_def array_at_def Let_def calcObsData_terms_irrelevant_fun
        calc_cn0_terms split: sum.splits)
  from forEach_map_of_out [OF fe] assms(2) ro'
  obtain d where "map_of (obs ro) t = Some d" "?f t d = Inr d'" by blast
  with r show ?thesis by (auto simp: pairObsData_def)
qed

lemma calc_entry:
  assumes run: "calcObservationEstimates X this observations receivers ic obsDiff = Inr observations'"
    and sig: "map_of (signals observations) s = Some observation"
    and out: "obsDataAt observations' s r t = Some d'"
  shows "r < length (recvObs observation) \<and> r < length receivers \<and>
         (\<exists>d. obsDataAt observations s r t = Some d \<and>
              pairObsData X this ic obsDiff (receivers ! r) (freq s) (freqNum observation)
                (navData observation) (recvObs observation ! r) t d = Inr d')"
proof -
  from run obtain sigs where
    fe: "forEach (calcSignal X this receivers ic obsDiff) (signals observations) = Inr sigs"
    and sigs: "signals observations' = sigs"
    by (auto simp: calcObservationEstimates_def split: sum.splits)
  from forEach_map_of_in [OF fe sig] obtain observation' where
    o': "map_of sigs s = Some observation'"
    and cs: "calcSignal X this receivers ic obsDiff s observation = Inr observation'"
    by blast
  from cs obtain rs where
    fi: "forIndex (calcRecvObs X this receivers ic obsDiff (freq s) (freqNum observation)
           (navData observation)) 0 (recvObs observation) = Inr rs"
    and rs: "recvObs observation' = rs"
    by (auto simp: calcSignal_def split: sum.splits)
  from forIndex_nth [OF fi] have len: "length rs = length (recvObs observation)"
    and nth: "\<And>i. i < length (recvObs observation) \<Longrightarrow>
        calcRecvObs X this receivers ic obsDiff (freq s) (freqNum observation)
           (navData observation) i (recvObs observation ! i) = Inr (rs ! i)"
    by auto
  from out o' sigs rs len have r: "r < length (recvObs observation)"
    and m: "map_of (obs (rs ! r)) t = Some d'"
    by (auto simp: obsDataAt_def split: if_splits)
  from calcRecvObs_entry [OF nth [OF r] m] r sig
  show ?thesis by (auto simp: obsDataAt_def)
qed

lemma array_at_Inr: "array_at xs i = Inr x \<longleftrightarrow> i < length xs \<and> x = xs ! i"
  by (auto simp: array_at_def)

lemma array_at_Inl: "array_at xs i = Inl e \<longleftrightarrow> \<not> i < length xs"
  by (cases e) (auto simp: array_at_def)

lemma pair_Pseudorange:
  assumes "pairObsData X this ic obsDiff receiver fr fnum nav ro Pseudorange d = Inr d'"
  shows "estimate d' =
           calc_rho_r_s receiver ro + calc_dpsr_ie_r_s X receiver ro
           + calc_dpsr_T_r_s X this receiver ro
           + calc_dpsr_I_r_s X this ic receiver fr fnum ro
           + InsConst_C X
             * (val (bias (recvClk receiver)) * b2d (obsDiff \<noteq> DoubleDifference)
                - sat_bias (satClock ro) * b2d (obsDiff = NoDifference)
                + val (sysTimeDiffBiasOf X receiver fr)
                + interFrequencyBiasValue receiver fr)"
    and "measVar d' =
           psrMeasErrorVar X (gnssMeasurementErrorModel this) (getSatSys X fr)
             (satElevation ro) (calc_cn0 ro)
           + (if obsDiff = NoDifference
              then calcSatellitePositionVariance X nav
                   + ionoErrorVar X (calc_dpsr_I_r_s X this ic receiver fr fnum ro) fr fnum
                   + tropoErrorVar X (calc_dpsr_T_r_s X this receiver ro) (satElevation ro)
                   + codeBiasErrorVar X (gnssMeasurementErrorModel this)
                   + interFrequencyBiasVar receiver fr
              else 0)
           + (if obsDiff \<noteq> DoubleDifference
              then (InsConst_C X)\<^sup>2
                   * ((stdDev (bias (recvClk receiver)))\<^sup>2
                      + (stdDev (sysTimeDiffBiasOf X receiver fr))\<^sup>2)
              else 0)"
    and "measurement d' = measurement d"
    and "toEnumeration X (getSatSys X fr) < length (sysTimeDiffBias (recvClk receiver))"
  using assms
  by (auto simp: pairObsData_def calcObsData_def calcEstimate_def addNoDifferenceVar_def
      addRecvClockVar_def Let_def array_at_Inr sysTimeDiffBiasOf_def interFrequencyBiasValue_def
      interFrequencyBiasVar_def
      split: sum.splits option.splits if_splits)

lemma pair_Carrier:
  assumes "pairObsData X this ic obsDiff receiver fr fnum nav ro Carrier d = Inr d'"
  shows "estimate d' =
           calc_rho_r_s receiver ro + calc_dpsr_ie_r_s X receiver ro
           + calc_dpsr_T_r_s X this receiver ro
           - calc_dpsr_I_r_s X this ic receiver fr fnum ro
           + InsConst_C X
             * (val (bias (recvClk receiver)) * b2d (obsDiff \<noteq> DoubleDifference)
                - sat_bias (satClock ro) * b2d (obsDiff = NoDifference)
                + val (sysTimeDiffBiasOf X receiver fr))"
    and "measVar d' =
           carrierMeasErrorVar X (gnssMeasurementErrorModel this) (getSatSys X fr)
             (satElevation ro) (calc_cn0 ro)
           + (if obsDiff = NoDifference
              then calcSatellitePositionVariance X nav
                   + ionoErrorVar X (calc_dpsr_I_r_s X this ic receiver fr fnum ro) fr fnum
                   + tropoErrorVar X (calc_dpsr_T_r_s X this receiver ro) (satElevation ro)
              else 0)
           + (if obsDiff \<noteq> DoubleDifference
              then (InsConst_C X)\<^sup>2
                   * ((stdDev (bias (recvClk receiver)))\<^sup>2
                      + (stdDev (sysTimeDiffBiasOf X receiver fr))\<^sup>2)
              else 0)"
    and "measurement d' = measurement d"
    and "toEnumeration X (getSatSys X fr) < length (sysTimeDiffBias (recvClk receiver))"
  using assms
  by (auto simp: pairObsData_def calcObsData_def calcEstimate_def addNoDifferenceVar_def
      addRecvClockVar_def Let_def array_at_Inr sysTimeDiffBiasOf_def
      split: sum.splits if_splits)

lemma pair_Doppler:
  assumes "pairObsData X this ic obsDiff receiver fr fnum nav ro Doppler d = Inr d'"
  shows "estimate d' =
           dot (e_pLOS ro) (vminus (e_satVel ro) (e_vel receiver))
           - calcSagnacRateCorrection X (e_pos receiver) (e_satPos ro) (e_vel receiver) (e_satVel ro)
           + InsConst_C X
             * (val (drift (recvClk receiver)) * b2d (obsDiff \<noteq> DoubleDifference)
                - sat_drift (satClock ro) * b2d (obsDiff = NoDifference)
                + val (sysTimeDiffDriftOf X receiver fr) * b2d (obsDiff = NoDifference))"
    and "measVar d' =
           psrRateMeasErrorVar X (gnssMeasurementErrorModel this) fr fnum
             (satElevation ro) (calc_cn0 ro)
           + (if obsDiff \<noteq> DoubleDifference
              then (InsConst_C X)\<^sup>2
                   * ((stdDev (drift (recvClk receiver)))\<^sup>2
                      + (stdDev (sysTimeDiffDriftOf X receiver fr))\<^sup>2)
              else 0)"
    and "measurement d' = measurement d"
    and "toEnumeration X (getSatSys X fr) < length (sysTimeDiffDrift (recvClk receiver))"
  using assms
  by (auto simp: pairObsData_def calcObsData_def calcEstimate_def addNoDifferenceVar_def
      addRecvClockVar_def Let_def array_at_Inr sysTimeDiffDriftOf_def
      split: sum.splits if_splits)

lemma pair_COUNT:
  "pairObsData X this ic obsDiff receiver fr fnum nav ro ObservationType_COUNT d = Inr d"
  by (cases obsDiff) (simp_all add: pairObsData_def calcObsData_def calcEstimate_def addNoDifferenceVar_def
      addRecvClockVar_def Let_def)

lemma pair_returns:
  "sysTimeDiffInRange X receiver fr t \<Longrightarrow>
     \<exists>d'. pairObsData X this ic obsDiff receiver fr fnum nav ro t d = Inr d'"
  by (cases t; cases obsDiff)
     (simp_all add: sysTimeDiffInRange_def pairObsData_def calcObsData_def calcEstimate_def
      addRecvClockVar_def Let_def array_at_def)

lemma pairObsData_fun:
  "calcObsData X this obsDiff receiver fr fnum nav ro
       (calc_rho_r_s receiver ro) (calc_dpsr_ie_r_s X receiver ro)
       (calc_dpsr_T_r_s X this receiver ro)
       (calc_dpsr_I_r_s X this ic receiver fr fnum ro) (calc_cn0 ro)
   = pairObsData X this ic obsDiff receiver fr fnum nav ro"
  by (intro ext) (simp add: pairObsData_def)

lemma calcRecvObs_alt:
  assumes "r < length receivers"
  shows "calcRecvObs X this receivers ic obsDiff fr fnum nav r ro =
    (case forEach (pairObsData X this ic obsDiff (receivers ! r) fr fnum nav ro) (obs ro) of
       Inl e \<Rightarrow> Inl e
     | Inr os \<Rightarrow>
         Inr (ro\<lparr> terms := (terms ro)
                     \<lparr> rho_r_s := calc_rho_r_s (receivers ! r) ro,
                       tropoZenithDelay := calc_tropo_r_s X this (receivers ! r) ro,
                       dpsr_T_r_s := calc_dpsr_T_r_s X this (receivers ! r) ro,
                       dpsr_I_r_s := calc_dpsr_I_r_s X this ic (receivers ! r) fr fnum ro,
                       dpsr_ie_r_s := calc_dpsr_ie_r_s X (receivers ! r) ro \<rparr>,
                 obs := os \<rparr>))"
  using assms
  by (simp add: calcRecvObs_def array_at_def Let_def calcObsData_terms_irrelevant_fun
      calc_cn0_terms pairObsData_fun split: sum.splits)

lemma calcRecvObs_obs:
  assumes "calcRecvObs X this receivers ic obsDiff fr fnum nav r ro = Inr ro'"
  shows "r < length receivers"
    and "forEach (pairObsData X this ic obsDiff (receivers ! r) fr fnum nav ro) (obs ro)
           = Inr (obs ro')"
proof -
  from assms show r: "r < length receivers"
    by (auto simp: calcRecvObs_def array_at_def split: if_splits)
  from assms show "forEach (pairObsData X this ic obsDiff (receivers ! r) fr fnum nav ro) (obs ro)
           = Inr (obs ro')"
    unfolding calcRecvObs_alt [OF r] by (auto split: sum.splits)
qed

lemma calcRecvObs_returns:
  assumes "r < length receivers"
    and "\<And>t d. (t, d) \<in> set (obs ro) \<Longrightarrow> sysTimeDiffInRange X (receivers ! r) fr t"
  shows "\<exists>ro'. calcRecvObs X this receivers ic obsDiff fr fnum nav r ro = Inr ro'"
proof -
  have "\<exists>os. forEach (pairObsData X this ic obsDiff (receivers ! r) fr fnum nav ro) (obs ro) = Inr os"
    by (rule forEach_total) (auto dest: assms(2) intro: pair_returns)
  then show ?thesis by (auto simp: calcRecvObs_alt [OF assms(1)])
qed

lemma calcSignal_returns:
  assumes "length (recvObs observation) \<le> length receivers"
    and "\<And>r t d. r < length (recvObs observation) \<Longrightarrow> (t, d) \<in> set (obs (recvObs observation ! r))
           \<Longrightarrow> sysTimeDiffInRange X (receivers ! r) (freq s) t"
  shows "\<exists>observation'. calcSignal X this receivers ic obsDiff s observation = Inr observation'"
proof -
  have "\<exists>rs. forIndex (calcRecvObs X this receivers ic obsDiff (freq s) (freqNum observation)
           (navData observation)) 0 (recvObs observation) = Inr rs"
  proof (rule forIndex_total)
    fix i assume i: "i < length (recvObs observation)"
    with assms(1) have ir: "i < length receivers" by simp
    have "\<exists>y. calcRecvObs X this receivers ic obsDiff (freq s) (freqNum observation)
           (navData observation) i (recvObs observation ! i) = Inr y"
      by (rule calcRecvObs_returns [OF ir]) (rule assms(2) [OF i])
    then show "\<exists>y. calcRecvObs X this receivers ic obsDiff (freq s) (freqNum observation)
           (navData observation) (0 + i) (recvObs observation ! i) = Inr y"
      by simp
  qed
  then show ?thesis by (auto simp: calcSignal_def)
qed

lemma calc_returns:
  assumes "wellFormed X observations receivers"
  shows "\<exists>observations'.
     calcObservationEstimates X this observations receivers ic obsDiff = Inr observations'"
proof -
  have "\<exists>sigs. forEach (calcSignal X this receivers ic obsDiff) (signals observations) = Inr sigs"
  proof (rule forEach_total)
    fix s observation assume mem: "(s, observation) \<in> set (signals observations)"
    from assms mem have "length (recvObs observation) \<le> length receivers"
      unfolding wellFormed_def by fastforce
    moreover from assms mem
    have "\<And>r t d. r < length (recvObs observation) \<Longrightarrow> (t, d) \<in> set (obs (recvObs observation ! r))
           \<Longrightarrow> sysTimeDiffInRange X (receivers ! r) (freq s) t"
      unfolding wellFormed_def by fastforce
    ultimately show "\<exists>w. calcSignal X this receivers ic obsDiff s observation = Inr w"
      by (rule calcSignal_returns)
  qed
  then show ?thesis by (auto simp: calcObservationEstimates_def)
qed

lemma calc_entry_out:
  assumes run: "calcObservationEstimates X this observations receivers ic obsDiff = Inr observations'"
    and inp: "obsDataAt observations s r t = Some d"
  shows "\<exists>d'. obsDataAt observations' s r t = Some d'"
proof -
  from inp obtain observation where sig: "map_of (signals observations) s = Some observation"
    and r: "r < length (recvObs observation)"
    and d: "map_of (obs (recvObs observation ! r)) t = Some d"
    by (auto simp: obsDataAt_def split: option.splits if_splits)
  from run obtain sigs where
    fe: "forEach (calcSignal X this receivers ic obsDiff) (signals observations) = Inr sigs"
    and sigs: "signals observations' = sigs"
    by (auto simp: calcObservationEstimates_def split: sum.splits)
  from forEach_map_of_in [OF fe sig] obtain observation' where
    o': "map_of sigs s = Some observation'"
    and cs: "calcSignal X this receivers ic obsDiff s observation = Inr observation'"
    by blast
  from cs obtain rs where
    fi: "forIndex (calcRecvObs X this receivers ic obsDiff (freq s) (freqNum observation)
           (navData observation)) 0 (recvObs observation) = Inr rs"
    and rs: "recvObs observation' = rs"
    by (auto simp: calcSignal_def split: sum.splits)
  from forIndex_nth [OF fi] r have len: "length rs = length (recvObs observation)"
    and nth: "calcRecvObs X this receivers ic obsDiff (freq s) (freqNum observation)
           (navData observation) r (recvObs observation ! r) = Inr (rs ! r)"
    by auto
  from forEach_map_of_in [OF calcRecvObs_obs(2) [OF nth] d]
  obtain d' where "map_of (obs (rs ! r)) t = Some d'" by blast
  with o' sigs rs len r show ?thesis by (auto simp: obsDataAt_def)
qed

lemma ex_wellFormed: "wellFormed ex_X ex_observations [ex_receiver]"
  by (simp add: wellFormed_def ex_observations_def ex_recvObs_def sysTimeDiffInRange_def
      ex_X_def ex_receiver_def ex_satSigId_def)

lemma ex_sig:
  "map_of (signals ex_observations) ex_satSigId
     = Some \<lparr> recvObs = [ex_recvObs], freqNum = 0, navData = () \<rparr>"
  by (simp add: ex_observations_def)

lemma ex_inp:
  "obsDataAt ex_observations ex_satSigId 0 Pseudorange = Some ex_obsData"
  "obsDataAt ex_observations ex_satSigId 0 Carrier = Some ex_obsData"
  "obsDataAt ex_observations ex_satSigId 0 Doppler = Some ex_obsData"
  by (simp_all add: obsDataAt_def ex_observations_def ex_recvObs_def)

lemmas ex_defs = ex_X_def ex_this_def ex_receiver_def ex_recvObs_def ex_satSigId_def
  calc_cn0_def calc_dpsr_I_r_s_def calc_dpsr_T_r_s_def calc_tropo_r_s_def calc_dpsr_ie_r_s_def
  sysTimeDiffBiasOf_def sysTimeDiffDriftOf_def interFrequencyBiasVar_def
  interFrequencyBiasValue_def b2d_def

lemma norm_v_axis: "norm_v (a, 0, 0) = \<bar>a\<bar>"
  by (simp add: norm_v_def dot_def)

lemmas run_defs = calcObservationEstimates_def calcSignal_def calcRecvObs_def array_at_def
  calcObsData_def calcEstimate_def addNoDifferenceVar_def addRecvClockVar_def Let_def
  obsDataAt_def estimateAt_def ex_observations_def ex_obsData_def

lemmas locals_defs = calc_rho_r_s_def calc_dpsr_ie_r_s_def calc_dpsr_T_r_s_def
  calc_tropo_r_s_def calc_dpsr_I_r_s_def

lemmas eval_defs = run_defs calc_rho_r_s_def vminus_def dot_def norm_v_axis ex_defs
  ex_receiver_noSys_def

lemma ex_wellFormed_noIfb: "wellFormed ex_X ex_observations [ex_receiver_noIfb]"
  by (simp add: wellFormed_def ex_observations_def ex_recvObs_def sysTimeDiffInRange_def
      ex_X_def ex_receiver_def ex_receiver_noIfb_def ex_satSigId_def)

lemma ex_wellFormed_atmosphere: "wellFormed ex_X_atmosphere ex_observations [ex_receiver]"
  by (simp add: wellFormed_def ex_observations_def ex_recvObs_def sysTimeDiffInRange_def
      ex_X_def ex_X_atmosphere_def ex_receiver_def ex_satSigId_def)

lemma dot_zero_right: "dot a (0, 0, 0) = 0"
  by (cases a) (simp add: dot_def)

lemma sc_wellFormed: "wellFormed sc_X sc_observations [sc_receiver]"
  by (simp add: wellFormed_def sc_observations_def sc_recvObs_def sysTimeDiffInRange_def
      ex_X_def sc_X_def sc_receiver_def ex_satSigId_def)

lemma sc_sig:
  "map_of (signals sc_observations) ex_satSigId
     = Some \<lparr> recvObs = [sc_recvObs], freqNum = 0, navData = () \<rparr>"
  by (simp add: sc_observations_def)

lemma sc_inp:
  "obsDataAt sc_observations ex_satSigId 0 Pseudorange = Some ex_obsData"
  "obsDataAt sc_observations ex_satSigId 0 Carrier = Some ex_obsData"
  "obsDataAt sc_observations ex_satSigId 0 Doppler = Some ex_obsData"
  by (simp_all add: obsDataAt_def sc_observations_def sc_recvObs_def)

lemmas sc_defs = sc_X_def ex_X_def ex_this_def sc_receiver_def sc_recvObs_def ex_satSigId_def
  calc_cn0_def calc_dpsr_I_r_s_def calc_dpsr_T_r_s_def calc_tropo_r_s_def calc_dpsr_ie_r_s_def
  sysTimeDiffBiasOf_def sysTimeDiffDriftOf_def interFrequencyBiasValue_def
  calc_rho_r_s_def vminus_def norm_v_axis

lemma forEach_preserves:
  assumes "forEach f xs = Inr ys"
    and "\<And>k v w. f k v = Inr w \<Longrightarrow> g w = g v"
  shows "map (\<lambda>(k, v). (k, g v)) ys = map (\<lambda>(k, v). (k, g v)) xs"
  using assms(1)
proof (induction xs arbitrary: ys)
  case Nil
  then show ?case by simp
next
  case (Cons a xs)
  obtain k0 v0 where a: "a = (k0, v0)" by (cases a)
  from Cons.prems a obtain v' ys' where
    fv: "f k0 v0 = Inr v'" and rest: "forEach f xs = Inr ys'" and ys: "ys = (k0, v') # ys'"
    by (auto split: sum.splits)
  from Cons.IH [OF rest] assms(2) [OF fv] a ys show ?case by simp
qed

lemma forIndex_preserves:
  assumes "forIndex f n xs = Inr ys"
    and "\<And>i x y. f i x = Inr y \<Longrightarrow> g y = g x"
  shows "map g ys = map g xs"
  using assms(1)
proof (induction xs arbitrary: n ys)
  case Nil
  then show ?case by simp
next
  case (Cons x xs)
  from Cons.prems obtain x' ys' where
    fx: "f n x = Inr x'" and rest: "forIndex f (Suc n) xs = Inr ys'" and ys: "ys = x' # ys'"
    by (auto split: sum.splits)
  from Cons.IH [OF rest] assms(2) [OF fx] ys show ?case by simp
qed

lemma calcEstimate_blank:
  "calcEstimate X this obsDiff receiver fr fnum ro rho ie T I cn0 t d = Inr d'
     \<Longrightarrow> blankObsData d' = blankObsData d"
  by (cases t) (auto simp: calcEstimate_def blankObsData_def Let_def split: sum.splits)

lemma addNoDifferenceVar_blank:
  "blankObsData (addNoDifferenceVar X this receiver fr fnum nav ro T I t d) = blankObsData d"
  by (simp add: addNoDifferenceVar_def blankObsData_def Let_def split: option.splits)

lemma addRecvClockVar_blank:
  "addRecvClockVar X receiver fr t d = Inr d' \<Longrightarrow> blankObsData d' = blankObsData d"
  by (auto simp: addRecvClockVar_def blankObsData_def Let_def split: sum.splits if_splits)

lemma calcObsData_blank:
  assumes "calcObsData X this obsDiff receiver fr fnum nav ro rho ie T I cn0 t d = Inr d'"
  shows "blankObsData d' = blankObsData d"
proof -
  from assms obtain d0 where
    e: "calcEstimate X this obsDiff receiver fr fnum ro rho ie T I cn0 t d = Inr d0"
    by (auto simp: calcObsData_def split: sum.splits)
  let ?d1 = "if obsDiff = NoDifference
             then addNoDifferenceVar X this receiver fr fnum nav ro T I t d0 else d0"
  have b1: "blankObsData ?d1 = blankObsData d0"
    by (simp add: addNoDifferenceVar_blank)
  from assms e have "(if obsDiff \<noteq> DoubleDifference
      then addRecvClockVar X receiver fr t ?d1 else Inr ?d1) = Inr d'"
    by (simp add: calcObsData_def Let_def)
  then have "blankObsData d' = blankObsData ?d1"
    by (auto dest: addRecvClockVar_blank split: if_splits)
  with b1 calcEstimate_blank [OF e] show ?thesis by simp
qed

lemma calcRecvObs_blank:
  assumes "calcRecvObs X this receivers ic obsDiff fr fnum nav r ro = Inr ro'"
  shows "blankRecvObs ro' = blankRecvObs ro"
proof -
  from assms obtain receiver ro1 cn0 rho ie T I os where
    ro1: "ro1 = ro\<lparr> terms := (terms ro)\<lparr> rho_r_s := calc_rho_r_s receiver ro,
              tropoZenithDelay := calc_tropo_r_s X this receiver ro,
              dpsr_T_r_s := calc_dpsr_T_r_s X this receiver ro,
              dpsr_I_r_s := calc_dpsr_I_r_s X this ic receiver fr fnum ro,
              dpsr_ie_r_s := calc_dpsr_ie_r_s X receiver ro \<rparr> \<rparr>"
    and fe: "forEach (calcObsData X this obsDiff receiver fr fnum nav ro1 rho ie T I cn0) (obs ro)
               = Inr os"
    and ro': "ro' = ro1\<lparr> obs := os \<rparr>"
    by (auto simp: calcRecvObs_def Let_def split: sum.splits)
  have "map (\<lambda>(k, v). (k, blankObsData v)) os = map (\<lambda>(k, v). (k, blankObsData v)) (obs ro)"
    by (rule forEach_preserves [OF fe]) (rule calcObsData_blank)
  with ro1 ro' show ?thesis by (simp add: blankRecvObs_def)
qed

lemma calcSignal_blank:
  assumes "calcSignal X this receivers ic obsDiff s observation = Inr observation'"
  shows "blankSignal observation' = blankSignal observation"
proof -
  from assms obtain rs where
    fi: "forIndex (calcRecvObs X this receivers ic obsDiff (freq s) (freqNum observation)
           (navData observation)) 0 (recvObs observation) = Inr rs"
    and o': "observation' = observation\<lparr> recvObs := rs \<rparr>"
    by (auto simp: calcSignal_def split: sum.splits)
  have "map blankRecvObs rs = map blankRecvObs (recvObs observation)"
    by (rule forIndex_preserves [OF fi]) (rule calcRecvObs_blank)
  with o' show ?thesis by (simp add: blankSignal_def)
qed

lemma calcObservationEstimates_blank:
  assumes "calcObservationEstimates X this observations receivers ic obsDiff = Inr observations'"
  shows "blankObservations observations' = blankObservations observations"
proof -
  from assms obtain sigs where
    fe: "forEach (calcSignal X this receivers ic obsDiff) (signals observations) = Inr sigs"
    and o': "observations' = observations\<lparr> signals := sigs \<rparr>"
    by (auto simp: calcObservationEstimates_def split: sum.splits)
  have "map (\<lambda>(k, v). (k, blankSignal v)) sigs
          = map (\<lambda>(k, v). (k, blankSignal v)) (signals observations)"
    by (rule forEach_preserves [OF fe]) (rule calcSignal_blank)
  with o' show ?thesis by (simp add: blankObservations_def)
qed

section \<open>Properties of the state transformer\<close>

lemma sameButComputed_refl: "sameButComputed w w"
  by (simp add: sameButComputed_def)

lemma sameButComputed_trans:
  "sameButComputed w w' \<Longrightarrow> sameButComputed w' w'' \<Longrightarrow> sameButComputed w w''"
  by (simp add: sameButComputed_def)

lemma map_update_same:
  assumes that: "f y = f (xs ! i)"
  shows "map f (xs[i := y]) = map f xs"
proof (cases "i < length xs")
  case True
  then show ?thesis using that by (simp add: map_update list_update_same_conv)
next
  case False
  then have "xs[i := y] = xs" by (simp add: list_update_beyond)
  then show ?thesis by simp
qed

lemma setRecvObs_same:
  assumes "blankRecvObs ro = blankRecvObs (getRecvObs w i r)"
  shows "sameButComputed w (setRecvObs i r ro w)"
proof -
  let ?sigs = "signals (w_observations w)"
  let ?so = "snd (?sigs ! i)"
  have "blankSignal (?so\<lparr> recvObs := (recvObs ?so)[r := ro] \<rparr>) = blankSignal ?so"
    using assms by (simp add: blankSignal_def getRecvObs_def getSignal_def map_update_same)
  then have "(\<lambda>(k, v). (k, blankSignal v)) (fst (?sigs ! i), ?so\<lparr> recvObs := (recvObs ?so)[r := ro] \<rparr>)
      = (\<lambda>(k, v). (k, blankSignal v)) (?sigs ! i)"
    by (simp add: case_prod_beta)
  then have "map (\<lambda>(k, v). (k, blankSignal v))
       (?sigs[i := (fst (?sigs ! i), ?so\<lparr> recvObs := (recvObs ?so)[r := ro] \<rparr>)])
     = map (\<lambda>(k, v). (k, blankSignal v)) ?sigs"
    by (rule map_update_same)
  then show ?thesis
    by (simp add: sameButComputed_def setRecvObs_def Let_def blankObservations_def)
qed

lemma setObsData_same:
  assumes "blankObsData d = blankObsData (snd (getObsData w i r j))"
  shows "sameButComputed w (setObsData i r j d w)"
proof -
  let ?ro = "getRecvObs w i r"
  have "(\<lambda>(t, d). (t, blankObsData d)) (fst (obs ?ro ! j), d)
      = (\<lambda>(t, d). (t, blankObsData d)) (obs ?ro ! j)"
    using assms by (simp add: getObsData_def case_prod_beta)
  then have "map (\<lambda>(t, d). (t, blankObsData d)) ((obs ?ro)[j := (fst (obs ?ro ! j), d)])
      = map (\<lambda>(t, d). (t, blankObsData d)) (obs ?ro)"
    by (rule map_update_same)
  then have "blankRecvObs (?ro\<lparr> obs := (obs ?ro)[j := (fst (obs ?ro ! j), d)] \<rparr>) = blankRecvObs ?ro"
    by (simp add: blankRecvObs_def)
  then show ?thesis
    unfolding setObsData_def Let_def by (rule setRecvObs_same)
qed

lemma forRange_preserves:
  assumes step: "\<And>i s s' e. body i s = (s', e) \<Longrightarrow> R s s'"
    and refl: "\<And>s. R s s"
    and trans: "\<And>s s' s''. R s s' \<Longrightarrow> R s' s'' \<Longrightarrow> R s s''"
  shows "forRange body n i s = (s', e) \<Longrightarrow> R s s'"
proof (induction n arbitrary: i s)
  case 0
  then show ?case by (simp add: refl)
next
  case (Suc n)
  obtain s1 e1 where b: "body i s = (s1, e1)" by (cases "body i s")
  show ?case
  proof (cases e1)
    case None
    with Suc.prems b have "forRange body n (Suc i) s1 = (s', e)" by simp
    from trans [OF step [OF b] Suc.IH [OF this]] show ?thesis .
  next
    case (Some x)
    with Suc.prems b have "s' = s1" by simp
    with step [OF b] show ?thesis by simp
  qed
qed

lemma obsBody_same:
  assumes "obsBody X obsDiff i r rho ie T I cn0 j w = (w', e)"
  shows "sameButComputed w w'"
proof -
  let ?fr = "freq (fst (getSignal w i))"
  let ?fnum = "freqNum (snd (getSignal w i))"
  let ?nav = "navData (snd (getSignal w i))"
  let ?receiver = "w_receivers w ! r"
  let ?t = "fst (getObsData w i r j)"
  let ?est = "calcEstimate X (w_this w) obsDiff ?receiver ?fr ?fnum (getRecvObs w i r)
               rho ie T I cn0 ?t (snd (getObsData w i r j))"
  show ?thesis
  proof (cases ?est)
    case (Inl x)
    with assms have "w' = w" by (simp add: obsBody_def Let_def)
    then show ?thesis by (simp add: sameButComputed_refl)
  next
    case (Inr d0)
    let ?w0 = "setObsData i r j d0 w"
    let ?w1 = "if obsDiff = NoDifference
               then setObsData i r j
                      (addNoDifferenceVar X (w_this ?w0) ?receiver ?fr ?fnum ?nav
                         (getRecvObs ?w0 i r) T I ?t (snd (getObsData ?w0 i r j))) ?w0
               else ?w0"
    have s0: "sameButComputed w ?w0"
      by (rule setObsData_same) (rule calcEstimate_blank [OF Inr])
    have s01: "sameButComputed ?w0 ?w1"
      by (simp add: sameButComputed_refl setObsData_same addNoDifferenceVar_blank)
    have s1: "sameButComputed w ?w1"
      by (rule sameButComputed_trans [OF s0 s01])
    from assms Inr have out:
      "(if obsDiff \<noteq> DoubleDifference
        then (case addRecvClockVar X ?receiver ?fr ?t (snd (getObsData ?w1 i r j)) of
                Inl e \<Rightarrow> (?w1, Some e)
              | Inr d2 \<Rightarrow> (setObsData i r j d2 ?w1, None))
        else (?w1, None)) = (w', e)"
      by (simp add: obsBody_def Let_def)
    show ?thesis
    proof (cases "obsDiff \<noteq> DoubleDifference")
      case False
      with out have "w' = ?w1" by simp
      with s1 show ?thesis by simp
    next
      case True
      show ?thesis
      proof (cases "addRecvClockVar X ?receiver ?fr ?t (snd (getObsData ?w1 i r j))")
        case (Inl x)
        with out True have "w' = ?w1" by simp
        with s1 show ?thesis by simp
      next
        case (Inr d2)
        with out True have w': "w' = setObsData i r j d2 ?w1" by simp
        have "sameButComputed ?w1 (setObsData i r j d2 ?w1)"
          by (rule setObsData_same) (rule addRecvClockVar_blank [OF Inr])
        from sameButComputed_trans [OF s1 this] w' show ?thesis by simp
      qed
    qed
  qed
qed

lemma recvBody_same:
  assumes "recvBody X obsDiff i r w = (w', e)"
  shows "sameButComputed w w'"
proof (cases "array_at (w_receivers w) r")
  case (Inl x)
  with assms have "w' = w" by (simp add: recvBody_def)
  then show ?thesis by (simp add: sameButComputed_refl)
next
  case (Inr receiver)
  let ?fr = "freq (fst (getSignal w i))"
  let ?fnum = "freqNum (snd (getSignal w i))"
  let ?ro = "getRecvObs w i r"
  let ?ro1 = "?ro\<lparr> terms := (terms ?ro)
      \<lparr> rho_r_s := calc_rho_r_s receiver ?ro,
        tropoZenithDelay := calc_tropo_r_s X (w_this w) receiver ?ro,
        dpsr_T_r_s := calc_dpsr_T_r_s X (w_this w) receiver ?ro,
        dpsr_I_r_s := calc_dpsr_I_r_s X (w_this w) (w_ionosphericCorrections w) receiver
                        ?fr ?fnum ?ro,
        dpsr_ie_r_s := calc_dpsr_ie_r_s X receiver ?ro \<rparr> \<rparr>"
  let ?w1 = "setRecvObs i r ?ro1 w"
  have s1: "sameButComputed w ?w1"
    by (rule setRecvObs_same) (simp add: blankRecvObs_def)
  from assms Inr have
    "forRange (obsBody X obsDiff i r (calc_rho_r_s receiver ?ro) (calc_dpsr_ie_r_s X receiver ?ro)
        (calc_dpsr_T_r_s X (w_this w) receiver ?ro)
        (calc_dpsr_I_r_s X (w_this w) (w_ionosphericCorrections w) receiver ?fr ?fnum ?ro)
        (calc_cn0 (getRecvObs ?w1 i r)))
       (length (obs (getRecvObs ?w1 i r))) 0 ?w1 = (w', e)"
    by (simp add: recvBody_def Let_def)
  then have "sameButComputed ?w1 w'"
    by (rule forRange_preserves [rotated 3])
       (erule obsBody_same, rule sameButComputed_refl, erule sameButComputed_trans, assumption)
  with s1 show ?thesis by (rule sameButComputed_trans)
qed

lemma signalBody_same:
  assumes "signalBody X obsDiff i w = (w', e)"
  shows "sameButComputed w w'"
  using assms unfolding signalBody_def
  by (rule forRange_preserves [rotated 3])
     (erule recvBody_same, rule sameButComputed_refl, erule sameButComputed_trans, assumption)

lemmas in_place_defs = calcObservationEstimates_in_place_def signalBody_def recvBody_def
  obsBody_def getSignal_def getRecvObs_def getObsData_def setRecvObs_def setObsData_def
  array_at_def calcEstimate_def addNoDifferenceVar_def addRecvClockVar_def Let_def
  ex_world_def ex_observations_def ex_obsData_def obsDataAt_def

text \<open>
  The state transformer and the function on values are two embeddings of the same code.
  They agree: the call throws in the one exactly when it does in the other, and a call that
  returns leaves the observation set that the function on values computes. What is proved
  of \<open>calcObservationEstimates\<close> therefore holds of the state transformer as well.
\<close>

lemma forRange_forEach:
  fixes get :: "'s \<Rightarrow> ('k \<times> 'v) list"
  assumes step: "\<And>i s. Inv s \<Longrightarrow> i < length (get s) \<Longrightarrow>
      (case f (fst (get s ! i)) (snd (get s ! i)) of
         Inl e \<Rightarrow> snd (body i s) = Some e
       | Inr v' \<Rightarrow> snd (body i s) = None \<and> Inv (fst (body i s)) \<and>
                  get (fst (body i s)) = (get s)[i := (fst (get s ! i), v')])"
  shows "Inv s \<Longrightarrow> i + n = length (get s) \<Longrightarrow>
      (case forEach f (drop i (get s)) of
         Inl e \<Rightarrow> snd (forRange body n i s) = Some e
       | Inr ys \<Rightarrow> snd (forRange body n i s) = None \<and> Inv (fst (forRange body n i s)) \<and>
                  get (fst (forRange body n i s)) = take i (get s) @ ys)"
proof (induction n arbitrary: i s)
  case 0
  then show ?case by simp
next
  case (Suc n)
  from Suc.prems(2) have i: "i < length (get s)" by simp
  obtain k v where kv: "get s ! i = (k, v)" by (cases "get s ! i")
  from Cons_nth_drop_Suc [OF i] kv
  have dr: "drop i (get s) = (k, v) # drop (Suc i) (get s)" by simp
  obtain s1 e1 where b: "body i s = (s1, e1)" by (cases "body i s")
  note st = step [OF Suc.prems(1) i]
  show ?case
  proof (cases "f k v")
    case (Inl e)
    with st kv b have "e1 = Some e" by simp
    with b Inl dr show ?thesis by simp
  next
    case (Inr v')
    with st kv b have e1: "e1 = None" and inv1: "Inv s1"
      and g1: "get s1 = (get s)[i := (k, v')]" by simp_all
    from b e1 have fr: "forRange body (Suc n) i s = forRange body n (Suc i) s1" by simp
    from g1 Suc.prems(2) have len: "Suc i + n = length (get s1)" by simp
    from g1 have dr1: "drop (Suc i) (get s1) = drop (Suc i) (get s)"
      by (simp add: drop_update_cancel)
    from g1 i have tk: "take (Suc i) (get s1) = take i (get s) @ [(k, v')]"
      by (simp add: take_Suc_conv_app_nth)
    note ih = Suc.IH [OF inv1 len, unfolded dr1]
    show ?thesis
    proof (cases "forEach f (drop (Suc i) (get s))")
      case (Inl e)
      with ih fr dr Inr show ?thesis by simp
    next
      case r: (Inr ys)
      with ih fr dr Inr tk show ?thesis by simp
    qed
  qed
qed

lemma forRange_forIndex:
  fixes get :: "'s \<Rightarrow> 'a list"
  assumes step: "\<And>i s. Inv s \<Longrightarrow> i < length (get s) \<Longrightarrow>
      (case f i (get s ! i) of
         Inl e \<Rightarrow> snd (body i s) = Some e
       | Inr y \<Rightarrow> snd (body i s) = None \<and> Inv (fst (body i s)) \<and>
                 get (fst (body i s)) = (get s)[i := y])"
  shows "Inv s \<Longrightarrow> i + n = length (get s) \<Longrightarrow>
      (case forIndex f i (drop i (get s)) of
         Inl e \<Rightarrow> snd (forRange body n i s) = Some e
       | Inr ys \<Rightarrow> snd (forRange body n i s) = None \<and> Inv (fst (forRange body n i s)) \<and>
                  get (fst (forRange body n i s)) = take i (get s) @ ys)"
proof (induction n arbitrary: i s)
  case 0
  then show ?case by simp
next
  case (Suc n)
  from Suc.prems(2) have i: "i < length (get s)" by simp
  from Cons_nth_drop_Suc [OF i]
  have dr: "drop i (get s) = (get s ! i) # drop (Suc i) (get s)" by simp
  obtain s1 e1 where b: "body i s = (s1, e1)" by (cases "body i s")
  note st = step [OF Suc.prems(1) i]
  show ?case
  proof (cases "f i (get s ! i)")
    case (Inl e)
    with st b have "e1 = Some e" by simp
    with b Inl dr show ?thesis by simp
  next
    case (Inr y)
    with st b have e1: "e1 = None" and inv1: "Inv s1"
      and g1: "get s1 = (get s)[i := y]" by simp_all
    from b e1 have fr: "forRange body (Suc n) i s = forRange body n (Suc i) s1" by simp
    from g1 Suc.prems(2) have len: "Suc i + n = length (get s1)" by simp
    from g1 have dr1: "drop (Suc i) (get s1) = drop (Suc i) (get s)"
      by (simp add: drop_update_cancel)
    from g1 i have tk: "take (Suc i) (get s1) = take i (get s) @ [y]"
      by (simp add: take_Suc_conv_app_nth)
    note ih = Suc.IH [OF inv1 len, unfolded dr1]
    show ?thesis
    proof (cases "forIndex f (Suc i) (drop (Suc i) (get s))")
      case (Inl e)
      with ih fr dr Inr show ?thesis by simp
    next
      case r: (Inr ys)
      with ih fr dr Inr tk show ?thesis by simp
    qed
  qed
qed

lemma setSignals_fields [simp]:
  "signals (w_observations (setSignals sigs w)) = sigs"
  "w_receivers (setSignals sigs w) = w_receivers w"
  "w_this (setSignals sigs w) = w_this w"
  "w_ionosphericCorrections (setSignals sigs w) = w_ionosphericCorrections w"
  "setSignals a (setSignals b w) = setSignals a w"
  by (simp_all add: setSignals_def)

lemma setSignals_id: "setSignals (signals (w_observations w)) w = w"
  by (simp add: setSignals_def)

lemma getSignal_setSignals [simp]: "getSignal (setSignals sigs w) i = sigs ! i"
  by (simp add: getSignal_def)

lemma setRecvObsList_setSignals:
  "setRecvObsList i rs (setSignals sigs w)
     = setSignals (sigs[i := (fst (sigs ! i), (snd (sigs ! i))\<lparr> recvObs := rs \<rparr>)]) w"
  by (simp add: setRecvObsList_def)

lemma setRecvObsList_fields [simp]:
  "w_receivers (setRecvObsList i rs w) = w_receivers w"
  "w_this (setRecvObsList i rs w) = w_this w"
  "w_ionosphericCorrections (setRecvObsList i rs w) = w_ionosphericCorrections w"
  "length (signals (w_observations (setRecvObsList i rs w))) = length (signals (w_observations w))"
  by (simp_all add: setRecvObsList_def)

lemma getSignal_setRecvObsList:
  "i < length (signals (w_observations w)) \<Longrightarrow>
     getSignal (setRecvObsList i rs w) i = (fst (getSignal w i), (snd (getSignal w i))\<lparr> recvObs := rs \<rparr>)"
  by (simp add: setRecvObsList_def)

lemma setRecvObsList_twice:
  "i < length (signals (w_observations w)) \<Longrightarrow>
     setRecvObsList i a (setRecvObsList i b w) = setRecvObsList i a w"
  by (simp add: setRecvObsList_def getSignal_def)

lemma setRecvObsList_id:
  "setRecvObsList i (recvObs (snd (getSignal w i))) w = w"
  by (simp add: setRecvObsList_def getSignal_def setSignals_id)

lemma setRecvObs_as_list:
  "setRecvObs i r ro w = setRecvObsList i ((recvObs (snd (getSignal w i)))[r := ro]) w"
  by (simp add: setRecvObs_def setRecvObsList_def setSignals_def getSignal_def Let_def)

lemma setRecvObs_setRecvObsList:
  "i < length (signals (w_observations w)) \<Longrightarrow>
     setRecvObs i r ro (setRecvObsList i rs w) = setRecvObsList i (rs[r := ro]) w"
  by (simp add: setRecvObs_as_list getSignal_setRecvObsList setRecvObsList_twice)

lemma getRecvObs_setRecvObsList:
  "i < length (signals (w_observations w)) \<Longrightarrow> getRecvObs (setRecvObsList i rs w) i r = rs ! r"
  by (simp add: getRecvObs_def getSignal_setRecvObsList)

lemma setRecvObs_fields [simp]:
  "w_receivers (setRecvObs i r ro w) = w_receivers w"
  "w_this (setRecvObs i r ro w) = w_this w"
  "w_ionosphericCorrections (setRecvObs i r ro w) = w_ionosphericCorrections w"
  "length (signals (w_observations (setRecvObs i r ro w))) = length (signals (w_observations w))"
  by (simp_all add: setRecvObs_as_list)

lemma getSignal_setRecvObs:
  "i < length (signals (w_observations w)) \<Longrightarrow>
     getSignal (setRecvObs i r ro w) i
       = (fst (getSignal w i),
          (snd (getSignal w i))\<lparr> recvObs := (recvObs (snd (getSignal w i)))[r := ro] \<rparr>)"
  by (simp add: setRecvObs_as_list getSignal_setRecvObsList)

lemma getRecvObs_setRecvObs:
  "i < length (signals (w_observations w)) \<Longrightarrow> r < length (recvObs (snd (getSignal w i))) \<Longrightarrow>
     getRecvObs (setRecvObs i r ro w) i r = ro"
  by (simp add: getRecvObs_def getSignal_setRecvObs)

lemma setRecvObs_twice:
  "i < length (signals (w_observations w)) \<Longrightarrow>
     setRecvObs i r a (setRecvObs i r b w) = setRecvObs i r a w"
  by (simp add: setRecvObs_as_list getSignal_setRecvObsList setRecvObsList_twice)

lemma setRecvObs_id:
  "setRecvObs i r (getRecvObs w i r) w = w"
  by (simp add: setRecvObs_as_list getRecvObs_def setRecvObsList_id)

lemma setObsData_setRecvObs:
  "i < length (signals (w_observations w)) \<Longrightarrow> r < length (recvObs (snd (getSignal w i))) \<Longrightarrow>
     setObsData i r j d (setRecvObs i r ro w)
       = setRecvObs i r (ro\<lparr> obs := (obs ro)[j := (fst (obs ro ! j), d)] \<rparr>) w"
  by (simp add: setObsData_def Let_def getRecvObs_setRecvObs setRecvObs_twice)

lemma getObsData_setRecvObs:
  "i < length (signals (w_observations w)) \<Longrightarrow> r < length (recvObs (snd (getSignal w i))) \<Longrightarrow>
     getObsData (setRecvObs i r ro w) i r j = obs ro ! j"
  by (simp add: getObsData_def getRecvObs_setRecvObs)

lemma calcEstimate_obs_irrelevant:
  "calcEstimate X this obsDiff receiver fr fnum (ro\<lparr> obs := os \<rparr>) rho ie T Ii cn0 t d
     = calcEstimate X this obsDiff receiver fr fnum ro rho ie T Ii cn0 t d"
  by (cases t) (simp_all add: calcEstimate_def Let_def split: sum.splits)

lemma addNoDifferenceVar_obs_irrelevant:
  "addNoDifferenceVar X this receiver fr fnum nav (ro\<lparr> obs := os \<rparr>) T Ii t d
     = addNoDifferenceVar X this receiver fr fnum nav ro T Ii t d"
  by (simp add: addNoDifferenceVar_def)

lemma calcObsData_obs_irrelevant:
  "calcObsData X this obsDiff receiver fr fnum nav (ro\<lparr> obs := os \<rparr>) rho ie T Ii cn0
     = calcObsData X this obsDiff receiver fr fnum nav ro rho ie T Ii cn0"
  by (intro ext) (simp add: calcObsData_def calcEstimate_obs_irrelevant
      addNoDifferenceVar_obs_irrelevant Let_def split: sum.splits)

lemma obsBody_step:
  assumes I: "i < length (signals (w_observations w1))"
    and R: "r < length (recvObs (snd (getSignal w1 i)))"
    and j: "j < length (obs ro)"
  shows "(case calcObsData X (w_this w1) obsDiff (w_receivers w1 ! r)
                 (freq (fst (getSignal w1 i))) (freqNum (snd (getSignal w1 i)))
                 (navData (snd (getSignal w1 i))) ro rho ie T Ii cn0
                 (fst (obs ro ! j)) (snd (obs ro ! j)) of
            Inl e \<Rightarrow> snd (obsBody X obsDiff i r rho ie T Ii cn0 j (setRecvObs i r ro w1)) = Some e
          | Inr d' \<Rightarrow>
              obsBody X obsDiff i r rho ie T Ii cn0 j (setRecvObs i r ro w1)
                = (setRecvObs i r (ro\<lparr> obs := (obs ro)[j := (fst (obs ro ! j), d')] \<rparr>) w1, None))"
  using j
  by (simp add: obsBody_def calcObsData_def Let_def
      getRecvObs_setRecvObs [OF I R] getObsData_setRecvObs [OF I R] getSignal_setRecvObs [OF I]
      setObsData_setRecvObs [OF I R] addNoDifferenceVar_obs_irrelevant
      split: sum.splits)

lemma obsLoop_agrees:
  assumes I: "i < length (signals (w_observations w1))"
    and R: "r < length (recvObs (snd (getSignal w1 i)))"
    and ro1: "ro1 = getRecvObs w1 i r"
    and f: "f = calcObsData X (w_this w1) obsDiff (w_receivers w1 ! r)
                 (freq (fst (getSignal w1 i))) (freqNum (snd (getSignal w1 i)))
                 (navData (snd (getSignal w1 i))) ro1 rho ie T Ii cn0"
  shows "(case forEach f (obs ro1) of
            Inl e \<Rightarrow> snd (forRange (obsBody X obsDiff i r rho ie T Ii cn0) (length (obs ro1)) 0 w1)
                       = Some e
          | Inr os \<Rightarrow> forRange (obsBody X obsDiff i r rho ie T Ii cn0) (length (obs ro1)) 0 w1
                       = (setRecvObs i r (ro1\<lparr> obs := os \<rparr>) w1, None))"
proof -
  let ?get = "\<lambda>w. obs (getRecvObs w i r)"
  let ?Inv = "\<lambda>w. \<exists>os. w = setRecvObs i r (ro1\<lparr> obs := os \<rparr>) w1"
  let ?body = "obsBody X obsDiff i r rho ie T Ii cn0"
  have get: "\<And>os. ?get (setRecvObs i r (ro1\<lparr> obs := os \<rparr>) w1) = os"
    by (simp add: getRecvObs_setRecvObs [OF I R])
  have step: "\<And>j s. ?Inv s \<Longrightarrow> j < length (?get s) \<Longrightarrow>
      (case f (fst (?get s ! j)) (snd (?get s ! j)) of
         Inl e \<Rightarrow> snd (?body j s) = Some e
       | Inr v' \<Rightarrow> snd (?body j s) = None \<and> ?Inv (fst (?body j s)) \<and>
                  ?get (fst (?body j s)) = (?get s)[j := (fst (?get s ! j), v')])"
  proof -
    fix j s assume inv: "?Inv s" and j: "j < length (?get s)"
    from inv obtain os where s: "s = setRecvObs i r (ro1\<lparr> obs := os \<rparr>) w1" by blast
    from j s get have j': "j < length (obs (ro1\<lparr> obs := os \<rparr>))" by simp
    note st = obsBody_step [OF I R j', of X obsDiff rho ie T Ii cn0,
        unfolded calcObsData_obs_irrelevant, folded f]
    show "(case f (fst (?get s ! j)) (snd (?get s ! j)) of
         Inl e \<Rightarrow> snd (?body j s) = Some e
       | Inr v' \<Rightarrow> snd (?body j s) = None \<and> ?Inv (fst (?body j s)) \<and>
                  ?get (fst (?body j s)) = (?get s)[j := (fst (?get s ! j), v')])"
    proof (cases "f (fst (os ! j)) (snd (os ! j))")
      case (Inl e)
      with st s get show ?thesis by simp
    next
      case (Inr d')
      with st have b: "?body j s
          = (setRecvObs i r (ro1\<lparr> obs := os[j := (fst (os ! j), d')] \<rparr>) w1, None)"
        by (simp add: s)
      have "?Inv (setRecvObs i r (ro1\<lparr> obs := os[j := (fst (os ! j), d')] \<rparr>) w1)"
        by blast
      with b Inr s get show ?thesis by simp
    qed
  qed
  have inv0: "?Inv w1"
  proof
    show "w1 = setRecvObs i r (ro1\<lparr> obs := obs ro1 \<rparr>) w1"
      by (simp add: ro1 setRecvObs_id)
  qed
  have len: "0 + length (obs ro1) = length (?get w1)" by (simp add: ro1)
  note main = forRange_forEach [where get = ?get and Inv = ?Inv and f = f and body = ?body,
      OF step inv0 len, simplified]
  show ?thesis
  proof (cases "forEach f (obs ro1)")
    case (Inl e)
    with main ro1 show ?thesis by simp
  next
    case (Inr os)
    with main ro1 have n: "snd (forRange ?body (length (obs ro1)) 0 w1) = None"
      and inv: "?Inv (fst (forRange ?body (length (obs ro1)) 0 w1))"
      and g: "?get (fst (forRange ?body (length (obs ro1)) 0 w1)) = os"
      by simp_all
    from inv obtain os' where
      w: "fst (forRange ?body (length (obs ro1)) 0 w1) = setRecvObs i r (ro1\<lparr> obs := os' \<rparr>) w1"
      by blast
    with g get have "os' = os" by simp
    with w n have "forRange ?body (length (obs ro1)) 0 w1
        = (setRecvObs i r (ro1\<lparr> obs := os \<rparr>) w1, None)"
      by (simp add: prod_eq_iff)
    with Inr show ?thesis by simp
  qed
qed

lemma recvBody_step:
  assumes I: "i < length (signals (w_observations w0))"
    and r: "r < length rs"
  shows "(case calcRecvObs X (w_this w0) (w_receivers w0) (w_ionosphericCorrections w0) obsDiff
                 (freq (fst (getSignal w0 i))) (freqNum (snd (getSignal w0 i)))
                 (navData (snd (getSignal w0 i))) r (rs ! r) of
            Inl e \<Rightarrow> snd (recvBody X obsDiff i r (setRecvObsList i rs w0)) = Some e
          | Inr ro' \<Rightarrow> recvBody X obsDiff i r (setRecvObsList i rs w0)
                        = (setRecvObsList i (rs[r := ro']) w0, None))"
proof (cases "array_at (w_receivers w0) r")
  case (Inl e)
  then show ?thesis by (simp add: calcRecvObs_def recvBody_def)
next
  case (Inr receiver)
  then have rc: "receiver = w_receivers w0 ! r"
    by (simp add: array_at_def split: if_splits)
  let ?w = "setRecvObsList i rs w0"
  let ?fr = "freq (fst (getSignal w0 i))"
  let ?fnum = "freqNum (snd (getSignal w0 i))"
  let ?nav = "navData (snd (getSignal w0 i))"
  let ?ro = "rs ! r"
  let ?rho = "calc_rho_r_s receiver ?ro"
  let ?T = "calc_dpsr_T_r_s X (w_this w0) receiver ?ro"
  let ?I = "calc_dpsr_I_r_s X (w_this w0) (w_ionosphericCorrections w0) receiver ?fr ?fnum ?ro"
  let ?ie = "calc_dpsr_ie_r_s X receiver ?ro"
  let ?ro1 = "?ro\<lparr> terms := (terms ?ro)
      \<lparr> rho_r_s := ?rho,
        tropoZenithDelay := calc_tropo_r_s X (w_this w0) receiver ?ro,
        dpsr_T_r_s := ?T, dpsr_I_r_s := ?I, dpsr_ie_r_s := ?ie \<rparr> \<rparr>"
  let ?w1 = "setRecvObsList i (rs[r := ?ro1]) w0"
  let ?f = "calcObsData X (w_this w0) obsDiff receiver ?fr ?fnum ?nav ?ro1 ?rho ?ie ?T ?I
              (calc_cn0 ?ro1)"
  let ?body = "obsBody X obsDiff i r ?rho ?ie ?T ?I (calc_cn0 ?ro1)"
  have I1: "i < length (signals (w_observations ?w1))" using I by simp
  have sg1: "getSignal ?w1 i = (fst (getSignal w0 i), (snd (getSignal w0 i))\<lparr> recvObs := rs[r := ?ro1] \<rparr>)"
    by (rule getSignal_setRecvObsList [OF I])
  have R1: "r < length (recvObs (snd (getSignal ?w1 i)))" using r by (simp add: sg1)
  have g1: "getRecvObs ?w1 i r = ?ro1"
    using r by (simp add: getRecvObs_setRecvObsList [OF I])
  have rb: "recvBody X obsDiff i r ?w = forRange ?body (length (obs ?ro1)) 0 ?w1"
    using Inr r
    by (simp add: recvBody_def Let_def getSignal_setRecvObsList [OF I]
        getRecvObs_setRecvObsList [OF I] setRecvObs_setRecvObsList [OF I])
  have f: "?f = calcObsData X (w_this ?w1) obsDiff (w_receivers ?w1 ! r)
                 (freq (fst (getSignal ?w1 i))) (freqNum (snd (getSignal ?w1 i)))
                 (navData (snd (getSignal ?w1 i))) ?ro1 ?rho ?ie ?T ?I (calc_cn0 ?ro1)"
    by (simp add: getSignal_setRecvObsList [OF I] rc)
  note loop = obsLoop_agrees [OF I1 R1 g1 [symmetric] f]
  have cr: "calcRecvObs X (w_this w0) (w_receivers w0) (w_ionosphericCorrections w0) obsDiff
              ?fr ?fnum ?nav r ?ro
            = (case forEach ?f (obs ?ro1) of Inl e \<Rightarrow> Inl e | Inr os \<Rightarrow> Inr (?ro1\<lparr> obs := os \<rparr>))"
    using Inr by (simp add: calcRecvObs_def Let_def)
  show ?thesis
  proof (cases "forEach ?f (obs ?ro1)")
    case (Inl e)
    with loop cr rb show ?thesis by simp
  next
    case os: (Inr os)
    with loop have "forRange ?body (length (obs ?ro1)) 0 ?w1
        = (setRecvObs i r (?ro1\<lparr> obs := os \<rparr>) ?w1, None)"
      by simp
    also have "setRecvObs i r (?ro1\<lparr> obs := os \<rparr>) ?w1
        = setRecvObsList i (rs[r := ?ro1\<lparr> obs := os \<rparr>]) w0"
      by (simp add: setRecvObs_setRecvObsList [OF I])
    finally show ?thesis using cr rb os by simp
  qed
qed

lemma recvLoop_agrees:
  assumes I: "i < length (signals (w_observations w0))"
    and f: "f = calcRecvObs X (w_this w0) (w_receivers w0) (w_ionosphericCorrections w0) obsDiff
                 (freq (fst (getSignal w0 i))) (freqNum (snd (getSignal w0 i)))
                 (navData (snd (getSignal w0 i)))"
  shows "(case forIndex f 0 (recvObs (snd (getSignal w0 i))) of
            Inl e \<Rightarrow> snd (signalBody X obsDiff i w0) = Some e
          | Inr rs \<Rightarrow> signalBody X obsDiff i w0 = (setRecvObsList i rs w0, None))"
proof -
  let ?get = "\<lambda>w. recvObs (snd (getSignal w i))"
  let ?Inv = "\<lambda>w. \<exists>rs. w = setRecvObsList i rs w0"
  let ?body = "recvBody X obsDiff i"
  let ?n = "length (recvObs (snd (getSignal w0 i)))"
  have get: "\<And>rs. ?get (setRecvObsList i rs w0) = rs"
    by (simp add: getSignal_setRecvObsList [OF I])
  have step: "\<And>r s. ?Inv s \<Longrightarrow> r < length (?get s) \<Longrightarrow>
      (case f r (?get s ! r) of
         Inl e \<Rightarrow> snd (?body r s) = Some e
       | Inr y \<Rightarrow> snd (?body r s) = None \<and> ?Inv (fst (?body r s)) \<and>
                 ?get (fst (?body r s)) = (?get s)[r := y])"
  proof -
    fix r s assume inv: "?Inv s" and r: "r < length (?get s)"
    from inv obtain rs where s: "s = setRecvObsList i rs w0" by blast
    from r s get have r': "r < length rs" by simp
    note st = recvBody_step [OF I r', of X obsDiff, folded f]
    show "(case f r (?get s ! r) of
         Inl e \<Rightarrow> snd (?body r s) = Some e
       | Inr y \<Rightarrow> snd (?body r s) = None \<and> ?Inv (fst (?body r s)) \<and>
                 ?get (fst (?body r s)) = (?get s)[r := y])"
    proof (cases "f r (rs ! r)")
      case (Inl e)
      with st s get show ?thesis by simp
    next
      case (Inr ro')
      with st have b: "?body r s = (setRecvObsList i (rs[r := ro']) w0, None)"
        by (simp add: s)
      have "?Inv (setRecvObsList i (rs[r := ro']) w0)" by blast
      with b Inr s get show ?thesis by simp
    qed
  qed
  have inv0: "?Inv w0"
  proof
    show "w0 = setRecvObsList i (recvObs (snd (getSignal w0 i))) w0"
      by (simp add: setRecvObsList_id)
  qed
  have len: "0 + ?n = length (?get w0)" by simp
  note main = forRange_forIndex [where get = ?get and Inv = ?Inv and f = f and body = ?body,
      OF step inv0 len, simplified]
  show ?thesis
  proof (cases "forIndex f 0 (recvObs (snd (getSignal w0 i)))")
    case (Inl e)
    with main show ?thesis by (simp add: signalBody_def)
  next
    case (Inr rs)
    with main have n: "snd (forRange ?body ?n 0 w0) = None"
      and inv: "?Inv (fst (forRange ?body ?n 0 w0))"
      and g: "?get (fst (forRange ?body ?n 0 w0)) = rs"
      by simp_all
    from inv obtain rs' where w: "fst (forRange ?body ?n 0 w0) = setRecvObsList i rs' w0"
      by blast
    with g get have "rs' = rs" by simp
    with w n have "forRange ?body ?n 0 w0 = (setRecvObsList i rs w0, None)"
      by (simp add: prod_eq_iff)
    with Inr show ?thesis by (simp add: signalBody_def)
  qed
qed

lemma signalBody_step:
  assumes i: "i < length sigs"
    and f: "f = calcSignal X (w_this w0) (w_receivers w0) (w_ionosphericCorrections w0) obsDiff"
  shows "(case f (fst (sigs ! i)) (snd (sigs ! i)) of
            Inl e \<Rightarrow> snd (signalBody X obsDiff i (setSignals sigs w0)) = Some e
          | Inr so' \<Rightarrow> signalBody X obsDiff i (setSignals sigs w0)
                        = (setSignals (sigs[i := (fst (sigs ! i), so')]) w0, None))"
proof -
  let ?w = "setSignals sigs w0"
  have I: "i < length (signals (w_observations ?w))" using i by simp
  note loop = recvLoop_agrees [OF I refl, of X obsDiff, simplified]
  show ?thesis
    using loop
    by (simp add: f calcSignal_def setRecvObsList_setSignals split: sum.splits)
qed

lemma in_place_agrees:
  "calcObservationEstimates X (w_this w) (w_observations w) (w_receivers w)
       (w_ionosphericCorrections w) obsDiff
     = (case calcObservationEstimates_in_place X obsDiff w of
          (w', None) \<Rightarrow> Inr (w_observations w')
        | (w', Some e) \<Rightarrow> Inl e)"
proof -
  let ?get = "\<lambda>w. signals (w_observations w)"
  let ?Inv = "\<lambda>w'. \<exists>sigs. w' = setSignals sigs w"
  let ?body = "signalBody X obsDiff"
  let ?f = "calcSignal X (w_this w) (w_receivers w) (w_ionosphericCorrections w) obsDiff"
  let ?n = "length (signals (w_observations w))"
  have step: "\<And>i s. ?Inv s \<Longrightarrow> i < length (?get s) \<Longrightarrow>
      (case ?f (fst (?get s ! i)) (snd (?get s ! i)) of
         Inl e \<Rightarrow> snd (?body i s) = Some e
       | Inr v' \<Rightarrow> snd (?body i s) = None \<and> ?Inv (fst (?body i s)) \<and>
                  ?get (fst (?body i s)) = (?get s)[i := (fst (?get s ! i), v')])"
  proof -
    fix i s assume inv: "?Inv s" and i: "i < length (?get s)"
    from inv obtain sigs where s: "s = setSignals sigs w" by blast
    from i s have i': "i < length sigs" by simp
    note st = signalBody_step [OF i' refl, where X = X and ?w0.0 = w and obsDiff = obsDiff]
    show "(case ?f (fst (?get s ! i)) (snd (?get s ! i)) of
         Inl e \<Rightarrow> snd (?body i s) = Some e
       | Inr v' \<Rightarrow> snd (?body i s) = None \<and> ?Inv (fst (?body i s)) \<and>
                  ?get (fst (?body i s)) = (?get s)[i := (fst (?get s ! i), v')])"
    proof (cases "?f (fst (sigs ! i)) (snd (sigs ! i))")
      case (Inl e)
      with st s show ?thesis by simp
    next
      case (Inr so')
      with st have b: "?body i s = (setSignals (sigs[i := (fst (sigs ! i), so')]) w, None)"
        by (simp add: s)
      have "?Inv (setSignals (sigs[i := (fst (sigs ! i), so')]) w)" by blast
      with b Inr s show ?thesis by simp
    qed
  qed
  have inv0: "?Inv w"
  proof
    show "w = setSignals (signals (w_observations w)) w" by (simp add: setSignals_id)
  qed
  have len: "0 + ?n = length (?get w)" by simp
  note main = forRange_forEach [where get = ?get and Inv = ?Inv and f = ?f and body = ?body,
      OF step inv0 len, simplified]
  obtain w' e where run: "calcObservationEstimates_in_place X obsDiff w = (w', e)"
    by (cases "calcObservationEstimates_in_place X obsDiff w")
  then have fr: "forRange ?body ?n 0 w = (w', e)"
    by (simp add: calcObservationEstimates_in_place_def)
  show ?thesis
  proof (cases "forEach ?f (signals (w_observations w))")
    case (Inl x)
    with main fr have "e = Some x" by simp
    with run Inl show ?thesis by (simp add: calcObservationEstimates_def)
  next
    case (Inr sigs)
    with main fr have e: "e = None" and inv: "?Inv w'" and g: "?get w' = sigs" by simp_all
    from inv obtain sigs' where w': "w' = setSignals sigs' w" by blast
    with g have "w_observations w' = (w_observations w)\<lparr> signals := sigs \<rparr>"
      by (simp add: setSignals_def)
    with run e Inr show ?thesis by (simp add: calcObservationEstimates_def)
  qed
qed

section \<open>The properties of the estimator\<close>

text \<open>
  C1. The claim: the per-system time-difference bias (pseudorange, carrier) and drift
  (Doppler) are in the estimate under \<open>NoDifference\<close> and \<open>SingleDifference\<close> and not under
  \<open>DoubleDifference\<close>. The code at the concrete epoch, whose receiver has the per-system
  bias 5 and the per-system drift 7, against the same epoch with both set to 0: under
  \<open>DoubleDifference\<close> the pseudorange estimate still contains \<open>299792458 * 5\<close> of per-system
  bias, and under \<open>SingleDifference\<close> the Doppler estimate does not contain
  \<open>299792458 * 7\<close> of per-system drift. The variance of the same observables treats the two
  terms as the claim says (lines 196 to 213), and the log line of the Doppler term reports
  it in every mode (line 161).
\<close>

theorem sysTimeDiff_at_failing_input:
  "estimateAt (calcObservationEstimates ex_X ex_this ex_observations [ex_receiver] ()
       DoubleDifference) ex_satSigId 0 Pseudorange
     = Some (20000022 + 299792458 * (5 + 11)) \<and>
   estimateAt (calcObservationEstimates ex_X ex_this ex_observations [ex_receiver_noSys] ()
       DoubleDifference) ex_satSigId 0 Pseudorange
     = Some (20000022 + 299792458 * (0 + 11)) \<and>
   estimateAt (calcObservationEstimates ex_X ex_this ex_observations [ex_receiver] ()
       SingleDifference) ex_satSigId 0 Doppler
     = Some (100 - 1 + 299792458 * 3) \<and>
   estimateAt (calcObservationEstimates ex_X ex_this ex_observations [ex_receiver_noSys] ()
       SingleDifference) ex_satSigId 0 Doppler
     = Some (100 - 1 + 299792458 * 3) \<and>
   val (sysTimeDiffBiasOf ex_X ex_receiver (freq ex_satSigId)) = 5 \<and>
   val (sysTimeDiffBiasOf ex_X ex_receiver_noSys (freq ex_satSigId)) = 0 \<and>
   val (sysTimeDiffDriftOf ex_X ex_receiver (freq ex_satSigId)) = 7 \<and>
   val (sysTimeDiffDriftOf ex_X ex_receiver_noSys (freq ex_satSigId)) = 0 \<and>
   20000022 + 299792458 * (5 + 11) \<noteq> (20000022 + 299792458 * (0 + 11) :: real)"
  by (simp add: eval_defs)

text \<open>
  C2, as amended. For the same input run under \<open>NoDifference\<close> and under
  \<open>SingleDifference\<close>, for the pseudorange and for the carrier estimate of every
  signal/receiver pair: the \<open>NoDifference\<close> estimate minus the \<open>SingleDifference\<close> estimate is
  minus the speed of light times the satellite-clock bias, the satellite clock being
  subtracted in the estimate.
\<close>

theorem estimate_differences_between_modes:
  assumes runN: "calcObservationEstimates X this observations receivers ic NoDifference = Inr oN"
    and runS: "calcObservationEstimates X this observations receivers ic SingleDifference = Inr oS"
    and sig: "map_of (signals observations) s = Some observation"
    and t: "t = Pseudorange \<or> t = Carrier"
    and outN: "obsDataAt oN s r t = Some dN"
    and outS: "obsDataAt oS s r t = Some dS"
  shows "estimate dN - estimate dS
           = - (InsConst_C X * sat_bias (satClock (recvObs observation ! r)))"
proof -
  let ?p = "\<lambda>m. pairObsData X this ic m (receivers ! r) (freq s) (freqNum observation)
              (navData observation) (recvObs observation ! r) t"
  from calc_entry [OF runN sig outN] obtain d where
    d: "obsDataAt observations s r t = Some d" and pN: "?p NoDifference d = Inr dN"
    by blast
  from calc_entry [OF runS sig outS] d have pS: "?p SingleDifference d = Inr dS" by auto
  from t show ?thesis
  proof
    assume t: "t = Pseudorange"
    note eN = pair_Pseudorange(1) [OF pN [unfolded t]]
    note eS = pair_Pseudorange(1) [OF pS [unfolded t]]
    show ?thesis unfolding eN eS by (simp add: b2d_def algebra_simps)
  next
    assume t: "t = Carrier"
    note eN = pair_Carrier(1) [OF pN [unfolded t]]
    note eS = pair_Carrier(1) [OF pS [unfolded t]]
    show ?thesis unfolding eN eS by (simp add: b2d_def algebra_simps)
  qed
qed

theorem estimate_differences_between_modes_witness:
  "\<exists>oN oS dN dS.
     calcObservationEstimates ex_X ex_this ex_observations [ex_receiver] () NoDifference = Inr oN \<and>
     calcObservationEstimates ex_X ex_this ex_observations [ex_receiver] () SingleDifference = Inr oS \<and>
     obsDataAt oN ex_satSigId 0 Pseudorange = Some dN \<and>
     obsDataAt oS ex_satSigId 0 Pseudorange = Some dS \<and>
     estimate dN - estimate dS = - (299792458 * 13)"
proof -
  from calc_returns [OF ex_wellFormed] obtain oN where
    runN: "calcObservationEstimates ex_X ex_this ex_observations [ex_receiver] () NoDifference
             = Inr oN"
    by blast
  from calc_returns [OF ex_wellFormed] obtain oS where
    runS: "calcObservationEstimates ex_X ex_this ex_observations [ex_receiver] () SingleDifference
             = Inr oS"
    by blast
  from calc_entry_out [OF runN ex_inp(1)] obtain dN where
    dN: "obsDataAt oN ex_satSigId 0 Pseudorange = Some dN" by blast
  from calc_entry_out [OF runS ex_inp(1)] obtain dS where
    dS: "obsDataAt oS ex_satSigId 0 Pseudorange = Some dS" by blast
  have "estimate dN - estimate dS = - (299792458 * 13)"
    using estimate_differences_between_modes [OF runN runS ex_sig _ dN dS]
    by (simp add: ex_X_def ex_receiver_def ex_recvObs_def)
  then show ?thesis using runN runS dN dS by blast
qed

text \<open>
  C2 as stated fails on the concrete epoch, whose receiver-clock bias is 2, satellite-clock
  bias 13 and per-system bias 5: the \<open>NoDifference\<close> estimate minus the \<open>SingleDifference\<close>
  estimate is \<open>- 299792458 * 13\<close>, not \<open>299792458 * 13\<close>.
\<close>

theorem mode_difference_claim_counterexample:
  "estimateAt (calcObservationEstimates ex_X ex_this ex_observations [ex_receiver] ()
       NoDifference) ex_satSigId 0 Pseudorange
     = Some (20000022 + 299792458 * (2 - 13 + 5 + 11)) \<and>
   estimateAt (calcObservationEstimates ex_X ex_this ex_observations [ex_receiver] ()
       SingleDifference) ex_satSigId 0 Pseudorange
     = Some (20000022 + 299792458 * (2 + 5 + 11)) \<and>
   InsConst_C ex_X = 299792458 \<and>
   val (bias (recvClk ex_receiver)) = 2 \<and>
   sat_bias (satClock ex_recvObs) = 13 \<and>
   val (sysTimeDiffBiasOf ex_X ex_receiver (freq ex_satSigId)) = 5 \<and>
   (20000022 + 299792458 * (2 - 13 + 5 + 11)) - (20000022 + 299792458 * (2 + 5 + 11))
     \<noteq> (299792458 * 13 :: real)"
  by (simp add: eval_defs)

text \<open>
  C3. For every signal/receiver pair the stored \<open>measVar\<close> is the baseline of the measurement
  error model plus the contributions of the difference-mode table: the satellite-position,
  ionosphere and troposphere variances are added for pseudorange and carrier, and the
  code-bias and inter-frequency-bias variances for pseudorange, only when the mode is
  \<open>NoDifference\<close>; the receiver-clock bias variance (pseudorange, carrier) and the
  receiver-clock drift variance (Doppler) are added when the mode is \<open>NoDifference\<close> or
  \<open>SingleDifference\<close> and not under \<open>DoubleDifference\<close>.
\<close>

theorem measVar_by_difference_mode:
  assumes run: "calcObservationEstimates X this observations receivers ic obsDiff = Inr observations'"
    and sig: "map_of (signals observations) s = Some observation"
    and out: "obsDataAt observations' s r t = Some d'"
    and rc: "receiver = receivers ! r"
    and ro: "ro = recvObs observation ! r"
  shows
   "(t = Pseudorange \<longrightarrow>
       measVar d' =
         psrMeasErrorVar X (gnssMeasurementErrorModel this) (getSatSys X (freq s))
           (satElevation ro) (calc_cn0 ro)
         + (if obsDiff = NoDifference
            then calcSatellitePositionVariance X (navData observation)
                 + ionoErrorVar X
                     (calc_dpsr_I_r_s X this ic receiver (freq s) (freqNum observation) ro)
                     (freq s) (freqNum observation)
                 + tropoErrorVar X (calc_dpsr_T_r_s X this receiver ro) (satElevation ro)
                 + codeBiasErrorVar X (gnssMeasurementErrorModel this)
                 + interFrequencyBiasVar receiver (freq s)
            else 0)
         + (if obsDiff \<noteq> DoubleDifference
            then (InsConst_C X)\<^sup>2
                 * ((stdDev (bias (recvClk receiver)))\<^sup>2
                    + (stdDev (sysTimeDiffBiasOf X receiver (freq s)))\<^sup>2)
            else 0)) \<and>
    (t = Carrier \<longrightarrow>
       measVar d' =
         carrierMeasErrorVar X (gnssMeasurementErrorModel this) (getSatSys X (freq s))
           (satElevation ro) (calc_cn0 ro)
         + (if obsDiff = NoDifference
            then calcSatellitePositionVariance X (navData observation)
                 + ionoErrorVar X
                     (calc_dpsr_I_r_s X this ic receiver (freq s) (freqNum observation) ro)
                     (freq s) (freqNum observation)
                 + tropoErrorVar X (calc_dpsr_T_r_s X this receiver ro) (satElevation ro)
            else 0)
         + (if obsDiff \<noteq> DoubleDifference
            then (InsConst_C X)\<^sup>2
                 * ((stdDev (bias (recvClk receiver)))\<^sup>2
                    + (stdDev (sysTimeDiffBiasOf X receiver (freq s)))\<^sup>2)
            else 0)) \<and>
    (t = Doppler \<longrightarrow>
       measVar d' =
         psrRateMeasErrorVar X (gnssMeasurementErrorModel this) (freq s) (freqNum observation)
           (satElevation ro) (calc_cn0 ro)
         + (if obsDiff \<noteq> DoubleDifference
            then (InsConst_C X)\<^sup>2
                 * ((stdDev (drift (recvClk receiver)))\<^sup>2
                    + (stdDev (sysTimeDiffDriftOf X receiver (freq s)))\<^sup>2)
            else 0))"
proof -
  from calc_entry [OF run sig out] rc ro obtain d where
    p: "pairObsData X this ic obsDiff receiver (freq s) (freqNum observation)
          (navData observation) ro t d = Inr d'"
    by blast
  show ?thesis
  proof (intro conjI impI)
    assume "t = Pseudorange"
    with p have p': "pairObsData X this ic obsDiff receiver (freq s) (freqNum observation)
          (navData observation) ro Pseudorange d = Inr d'" by simp
    show "measVar d' =
         psrMeasErrorVar X (gnssMeasurementErrorModel this) (getSatSys X (freq s))
           (satElevation ro) (calc_cn0 ro)
         + (if obsDiff = NoDifference
            then calcSatellitePositionVariance X (navData observation)
                 + ionoErrorVar X
                     (calc_dpsr_I_r_s X this ic receiver (freq s) (freqNum observation) ro)
                     (freq s) (freqNum observation)
                 + tropoErrorVar X (calc_dpsr_T_r_s X this receiver ro) (satElevation ro)
                 + codeBiasErrorVar X (gnssMeasurementErrorModel this)
                 + interFrequencyBiasVar receiver (freq s)
            else 0)
         + (if obsDiff \<noteq> DoubleDifference
            then (InsConst_C X)\<^sup>2
                 * ((stdDev (bias (recvClk receiver)))\<^sup>2
                    + (stdDev (sysTimeDiffBiasOf X receiver (freq s)))\<^sup>2)
            else 0)"
      by (rule pair_Pseudorange(2) [OF p'])
  next
    assume "t = Carrier"
    with p have p': "pairObsData X this ic obsDiff receiver (freq s) (freqNum observation)
          (navData observation) ro Carrier d = Inr d'" by simp
    show "measVar d' =
         carrierMeasErrorVar X (gnssMeasurementErrorModel this) (getSatSys X (freq s))
           (satElevation ro) (calc_cn0 ro)
         + (if obsDiff = NoDifference
            then calcSatellitePositionVariance X (navData observation)
                 + ionoErrorVar X
                     (calc_dpsr_I_r_s X this ic receiver (freq s) (freqNum observation) ro)
                     (freq s) (freqNum observation)
                 + tropoErrorVar X (calc_dpsr_T_r_s X this receiver ro) (satElevation ro)
            else 0)
         + (if obsDiff \<noteq> DoubleDifference
            then (InsConst_C X)\<^sup>2
                 * ((stdDev (bias (recvClk receiver)))\<^sup>2
                    + (stdDev (sysTimeDiffBiasOf X receiver (freq s)))\<^sup>2)
            else 0)"
      by (rule pair_Carrier(2) [OF p'])
  next
    assume "t = Doppler"
    with p have p': "pairObsData X this ic obsDiff receiver (freq s) (freqNum observation)
          (navData observation) ro Doppler d = Inr d'" by simp
    show "measVar d' =
         psrRateMeasErrorVar X (gnssMeasurementErrorModel this) (freq s) (freqNum observation)
           (satElevation ro) (calc_cn0 ro)
         + (if obsDiff \<noteq> DoubleDifference
            then (InsConst_C X)\<^sup>2
                 * ((stdDev (drift (recvClk receiver)))\<^sup>2
                    + (stdDev (sysTimeDiffDriftOf X receiver (freq s)))\<^sup>2)
            else 0)"
      by (rule pair_Doppler(2) [OF p'])
  qed
qed

theorem measVar_by_difference_mode_witness:
  "\<exists>observations' dp dc dd.
     calcObservationEstimates ex_X ex_this ex_observations [ex_receiver] () NoDifference
       = Inr observations' \<and>
     obsDataAt observations' ex_satSigId 0 Pseudorange = Some dp \<and>
     obsDataAt observations' ex_satSigId 0 Carrier = Some dc \<and>
     obsDataAt observations' ex_satSigId 0 Doppler = Some dd \<and>
     measVar dp = 1 + (2 + 3 + 4 + 6 + 25) + 299792458\<^sup>2 * (1 + 9) \<and>
     measVar dc = 1 / 100 + (2 + 3 + 4) + 299792458\<^sup>2 * (1 + 9) \<and>
     measVar dd = 1 / 10 + 299792458\<^sup>2 * (4 + 16)"
proof -
  from calc_returns [OF ex_wellFormed] obtain observations' where
    run: "calcObservationEstimates ex_X ex_this ex_observations [ex_receiver] () NoDifference
            = Inr observations'"
    by blast
  from calc_entry_out [OF run ex_inp(1)] obtain dp where
    dp: "obsDataAt observations' ex_satSigId 0 Pseudorange = Some dp" by blast
  from calc_entry_out [OF run ex_inp(2)] obtain dc where
    dc: "obsDataAt observations' ex_satSigId 0 Carrier = Some dc" by blast
  from calc_entry_out [OF run ex_inp(3)] obtain dd where
    dd: "obsDataAt observations' ex_satSigId 0 Doppler = Some dd" by blast
  have "measVar dp = 1 + (2 + 3 + 4 + 6 + 25) + 299792458\<^sup>2 * (1 + 9)"
    using measVar_by_difference_mode [OF run ex_sig dp refl refl] by (simp add: ex_defs)
  moreover have "measVar dc = 1 / 100 + (2 + 3 + 4) + 299792458\<^sup>2 * (1 + 9)"
    using measVar_by_difference_mode [OF run ex_sig dc refl refl] by (simp add: ex_defs)
  moreover have "measVar dd = 1 / 10 + 299792458\<^sup>2 * (4 + 16)"
    using measVar_by_difference_mode [OF run ex_sig dd refl refl] by (simp add: ex_defs)
  ultimately show ?thesis using run dp dc dd by blast
qed

text \<open>
  C4. For every signal/receiver pair, in every difference mode: take two calls on the same
  observation set that differ only in the inter-frequency biases of receiver \<open>r\<close>. The
  pseudorange estimates differ by the speed of light times the difference of the bias values
  for the signal's frequency (zero for a receiver that has none), and the carrier and the
  Doppler estimates are equal: the inter-frequency bias is in the pseudorange estimate and
  only there.
\<close>

theorem interFrequencyBias_in_pseudorange_only:
  assumes run1: "calcObservationEstimates X this observations receivers ic obsDiff = Inr observations1"
    and run2: "calcObservationEstimates X this observations receivers2 ic obsDiff = Inr observations2"
    and sig: "map_of (signals observations) s = Some observation"
    and rc2: "receivers2 ! r = (receivers ! r)\<lparr> interFrequencyBias := ifb2 \<rparr>"
    and out1: "obsDataAt observations1 s r t = Some d1"
    and out2: "obsDataAt observations2 s r t = Some d2"
  shows
   "(t = Pseudorange \<longrightarrow>
       estimate d2 - estimate d1 =
         InsConst_C X * (interFrequencyBiasValue (receivers2 ! r) (freq s)
                         - interFrequencyBiasValue (receivers ! r) (freq s))) \<and>
    (t = Carrier \<or> t = Doppler \<longrightarrow> estimate d2 = estimate d1)"
proof -
  let ?p = "\<lambda>rcv. pairObsData X this ic obsDiff rcv (freq s) (freqNum observation)
              (navData observation) (recvObs observation ! r) t"
  from calc_entry [OF run1 sig out1] obtain d where
    d: "obsDataAt observations s r t = Some d" and p1: "?p (receivers ! r) d = Inr d1"
    by blast
  from calc_entry [OF run2 sig out2] d have p2: "?p (receivers2 ! r) d = Inr d2"
    by auto
  show ?thesis
  proof (intro conjI impI)
    assume t: "t = Pseudorange"
    note e1 = pair_Pseudorange(1) [OF p1 [unfolded t]]
    note e2 = pair_Pseudorange(1) [OF p2 [unfolded t]]
    show "estimate d2 - estimate d1 =
         InsConst_C X * (interFrequencyBiasValue (receivers2 ! r) (freq s)
                         - interFrequencyBiasValue (receivers ! r) (freq s))"
      unfolding e1 e2
      by (simp add: rc2 locals_defs sysTimeDiffBiasOf_def algebra_simps)
  next
    assume "t = Carrier \<or> t = Doppler"
    then show "estimate d2 = estimate d1"
    proof
      assume t: "t = Carrier"
      note e1 = pair_Carrier(1) [OF p1 [unfolded t]]
      note e2 = pair_Carrier(1) [OF p2 [unfolded t]]
      show ?thesis unfolding e1 e2
        by (simp add: rc2 locals_defs sysTimeDiffBiasOf_def)
    next
      assume t: "t = Doppler"
      note e1 = pair_Doppler(1) [OF p1 [unfolded t]]
      note e2 = pair_Doppler(1) [OF p2 [unfolded t]]
      show ?thesis unfolding e1 e2
        by (simp add: rc2 sysTimeDiffDriftOf_def)
    qed
  qed
qed

theorem interFrequencyBias_in_pseudorange_only_witness:
  "\<exists>o1 o2 p1 p2 c1 c2 q1 q2.
     calcObservationEstimates ex_X ex_this ex_observations [ex_receiver_noIfb] () DoubleDifference
       = Inr o1 \<and>
     calcObservationEstimates ex_X ex_this ex_observations [ex_receiver] () DoubleDifference
       = Inr o2 \<and>
     obsDataAt o1 ex_satSigId 0 Pseudorange = Some p1 \<and>
     obsDataAt o2 ex_satSigId 0 Pseudorange = Some p2 \<and>
     obsDataAt o1 ex_satSigId 0 Carrier = Some c1 \<and>
     obsDataAt o2 ex_satSigId 0 Carrier = Some c2 \<and>
     obsDataAt o1 ex_satSigId 0 Doppler = Some q1 \<and>
     obsDataAt o2 ex_satSigId 0 Doppler = Some q2 \<and>
     estimate p2 - estimate p1 = 299792458 * (11 - 0) \<and>
     estimate c2 = estimate c1 \<and>
     estimate q2 = estimate q1"
proof -
  from calc_returns [OF ex_wellFormed_noIfb] obtain o1 where
    run1: "calcObservationEstimates ex_X ex_this ex_observations [ex_receiver_noIfb] ()
             DoubleDifference = Inr o1"
    by blast
  from calc_returns [OF ex_wellFormed] obtain o2 where
    run2: "calcObservationEstimates ex_X ex_this ex_observations [ex_receiver] ()
             DoubleDifference = Inr o2"
    by blast
  from calc_entry_out [OF run1 ex_inp(1)] obtain p1 where
    p1: "obsDataAt o1 ex_satSigId 0 Pseudorange = Some p1" by blast
  from calc_entry_out [OF run2 ex_inp(1)] obtain p2 where
    p2: "obsDataAt o2 ex_satSigId 0 Pseudorange = Some p2" by blast
  from calc_entry_out [OF run1 ex_inp(2)] obtain c1 where
    c1: "obsDataAt o1 ex_satSigId 0 Carrier = Some c1" by blast
  from calc_entry_out [OF run2 ex_inp(2)] obtain c2 where
    c2: "obsDataAt o2 ex_satSigId 0 Carrier = Some c2" by blast
  from calc_entry_out [OF run1 ex_inp(3)] obtain q1 where
    q1: "obsDataAt o1 ex_satSigId 0 Doppler = Some q1" by blast
  from calc_entry_out [OF run2 ex_inp(3)] obtain q2 where
    q2: "obsDataAt o2 ex_satSigId 0 Doppler = Some q2" by blast
  have rc2: "[ex_receiver] ! 0 =
      ([ex_receiver_noIfb] ! 0)\<lparr> interFrequencyBias := [0 \<mapsto> \<lparr> val = 11, stdDev = 5 \<rparr>] \<rparr>"
    by (simp add: ex_receiver_noIfb_def ex_receiver_def)
  have "estimate p2 - estimate p1 = 299792458 * (11 - 0)"
    using interFrequencyBias_in_pseudorange_only [OF run1 run2 ex_sig rc2 p1 p2]
    by (simp add: ex_X_def ex_receiver_def ex_receiver_noIfb_def ex_satSigId_def
        interFrequencyBiasValue_def)
  moreover have "estimate c2 = estimate c1"
    using interFrequencyBias_in_pseudorange_only [OF run1 run2 ex_sig rc2 c1 c2] by simp
  moreover have "estimate q2 = estimate q1"
    using interFrequencyBias_in_pseudorange_only [OF run1 run2 ex_sig rc2 q1 q2] by simp
  ultimately show ?thesis using run1 run2 p1 p2 c1 c2 q1 q2 by blast
qed

text \<open>
  C5, as amended. For every signal/receiver pair the ionospheric delay is added to the
  pseudorange estimate and subtracted from the carrier estimate, and the inter-frequency
  bias is in the pseudorange estimate only; so the pseudorange estimate minus the carrier
  estimate is two times the ionospheric delay plus the speed of light times the receiver's
  inter-frequency bias for the signal's frequency (zero when the receiver has none).
\<close>

theorem pseudorange_minus_carrier:
  assumes run: "calcObservationEstimates X this observations receivers ic obsDiff = Inr observations'"
    and sig: "map_of (signals observations) s = Some observation"
    and outp: "obsDataAt observations' s r Pseudorange = Some dp"
    and outc: "obsDataAt observations' s r Carrier = Some dc"
    and rc: "receiver = receivers ! r"
    and ro: "ro = recvObs observation ! r"
    and I: "I = calc_dpsr_I_r_s X this ic receiver (freq s) (freqNum observation) ro"
    and common: "common = calc_rho_r_s receiver ro + calc_dpsr_ie_r_s X receiver ro
           + calc_dpsr_T_r_s X this receiver ro
           + InsConst_C X
             * (val (bias (recvClk receiver)) * b2d (obsDiff \<noteq> DoubleDifference)
                - sat_bias (satClock ro) * b2d (obsDiff = NoDifference)
                + val (sysTimeDiffBiasOf X receiver (freq s)))"
  shows "estimate dp = common + I + InsConst_C X * interFrequencyBiasValue receiver (freq s) \<and>
         estimate dc = common - I \<and>
         estimate dp - estimate dc
           = 2 * I + InsConst_C X * interFrequencyBiasValue receiver (freq s)"
proof -
  from calc_entry [OF run sig outp] rc ro obtain d where
    pp: "pairObsData X this ic obsDiff receiver (freq s) (freqNum observation)
          (navData observation) ro Pseudorange d = Inr dp"
    by blast
  from calc_entry [OF run sig outc] rc ro obtain d where
    pc: "pairObsData X this ic obsDiff receiver (freq s) (freqNum observation)
          (navData observation) ro Carrier d = Inr dc"
    by blast
  show ?thesis
    unfolding pair_Pseudorange(1) [OF pp] pair_Carrier(1) [OF pc] I common
    by (simp add: algebra_simps)
qed

theorem pseudorange_minus_carrier_witness:
  "\<exists>observations' dp dc.
     calcObservationEstimates ex_X ex_this ex_observations [ex_receiver] () SingleDifference
       = Inr observations' \<and>
     obsDataAt observations' ex_satSigId 0 Pseudorange = Some dp \<and>
     obsDataAt observations' ex_satSigId 0 Carrier = Some dc \<and>
     estimate dp - estimate dc = 2 * 5 + 299792458 * 11"
proof -
  from calc_returns [OF ex_wellFormed] obtain observations' where
    run: "calcObservationEstimates ex_X ex_this ex_observations [ex_receiver] () SingleDifference
            = Inr observations'"
    by blast
  from calc_entry_out [OF run ex_inp(1)] obtain dp where
    dp: "obsDataAt observations' ex_satSigId 0 Pseudorange = Some dp" by blast
  from calc_entry_out [OF run ex_inp(2)] obtain dc where
    dc: "obsDataAt observations' ex_satSigId 0 Carrier = Some dc" by blast
  have "estimate dp - estimate dc = 2 * 5 + 299792458 * 11"
    using pseudorange_minus_carrier [OF run ex_sig dp dc refl refl refl refl]
    by (simp add: ex_defs)
  then show ?thesis using run dp dc by blast
qed

text \<open>
  C5 as stated fails on the concrete epoch, where the ionospheric delay is 5 and the receiver
  has the inter-frequency bias 11 for the signal's frequency: the pseudorange estimate minus
  the carrier estimate is \<open>2 * 5 + 299792458 * 11\<close>, not \<open>2 * 5\<close>.
\<close>

theorem twice_iono_claim_counterexample:
  "estimateAt (calcObservationEstimates ex_X ex_this ex_observations [ex_receiver] ()
       NoDifference) ex_satSigId 0 Pseudorange
     = Some (20000017 + 5 + 299792458 * (2 - 13 + 5 + 11)) \<and>
   estimateAt (calcObservationEstimates ex_X ex_this ex_observations [ex_receiver] ()
       NoDifference) ex_satSigId 0 Carrier
     = Some (20000017 - 5 + 299792458 * (2 - 13 + 5)) \<and>
   calc_dpsr_I_r_s ex_X ex_this () ex_receiver (freq ex_satSigId) 0 ex_recvObs = 5 \<and>
   (20000017 + 5 + 299792458 * (2 - 13 + 5 + 11)) - (20000017 - 5 + 299792458 * (2 - 13 + 5))
     \<noteq> (2 * 5 :: real)"
  by (simp add: eval_defs)

text \<open>
  C6. Two calls that differ only in the troposphere and ionosphere providers, whatever these
  return, leave the same Doppler estimate for every signal/receiver pair.
\<close>

theorem doppler_independent_of_atmosphere:
  assumes run1: "calcObservationEstimates X this observations receivers ic obsDiff = Inr observations1"
    and run2: "calcObservationEstimates
                 (X\<lparr> calcTroposphericDelayAndMapping := tropo2, calcIonosphericDelay := iono2 \<rparr>)
                 this observations receivers ic obsDiff = Inr observations2"
    and sig: "map_of (signals observations) s = Some observation"
    and out1: "obsDataAt observations1 s r Doppler = Some d1"
    and out2: "obsDataAt observations2 s r Doppler = Some d2"
  shows "estimate d2 = estimate d1"
proof -
  let ?X2 = "X\<lparr> calcTroposphericDelayAndMapping := tropo2, calcIonosphericDelay := iono2 \<rparr>"
  from calc_entry [OF run1 sig out1] obtain d where
    p1: "pairObsData X this ic obsDiff (receivers ! r) (freq s) (freqNum observation)
           (navData observation) (recvObs observation ! r) Doppler d = Inr d1"
    by blast
  from calc_entry [OF run2 sig out2] obtain d' where
    p2: "pairObsData ?X2 this ic obsDiff (receivers ! r) (freq s) (freqNum observation)
           (navData observation) (recvObs observation ! r) Doppler d' = Inr d2"
    by blast
  show ?thesis
    unfolding pair_Doppler(1) [OF p1] pair_Doppler(1) [OF p2]
    by (simp add: sysTimeDiffDriftOf_def)
qed

theorem doppler_independent_of_atmosphere_witness:
  "\<exists>o1 o2 d1 d2.
     calcObservationEstimates ex_X ex_this ex_observations [ex_receiver] () NoDifference = Inr o1 \<and>
     calcObservationEstimates ex_X_atmosphere ex_this ex_observations [ex_receiver] () NoDifference
       = Inr o2 \<and>
     obsDataAt o1 ex_satSigId 0 Doppler = Some d1 \<and>
     obsDataAt o2 ex_satSigId 0 Doppler = Some d2 \<and>
     estimate d2 = estimate d1"
proof -
  from calc_returns [OF ex_wellFormed] obtain o1 where
    run1: "calcObservationEstimates ex_X ex_this ex_observations [ex_receiver] () NoDifference
             = Inr o1"
    by blast
  from calc_returns [OF ex_wellFormed_atmosphere] obtain o2 where
    run2: "calcObservationEstimates ex_X_atmosphere ex_this ex_observations [ex_receiver] ()
             NoDifference = Inr o2"
    by blast
  from calc_entry_out [OF run1 ex_inp(3)] obtain d1 where
    d1: "obsDataAt o1 ex_satSigId 0 Doppler = Some d1" by blast
  from calc_entry_out [OF run2 ex_inp(3)] obtain d2 where
    d2: "obsDataAt o2 ex_satSigId 0 Doppler = Some d2" by blast
  have "estimate d2 = estimate d1"
    using doppler_independent_of_atmosphere [OF run1 run2 [unfolded ex_X_atmosphere_def] ex_sig d1 d2] .
  then show ?thesis using run1 run2 d1 d2 by blast
qed

text \<open>
  C7. After the call has returned, for every signal/receiver pair and each of the three
  observables, the stored \<open>measVar\<close> is at least the baseline that the measurement error
  model returns for the observable, provided the satellite-position variance, the ionosphere
  and troposphere error variances and the code-bias variance are not negative (the other
  contributions are squares).
\<close>

theorem measVar_ge_baseline:
  assumes run: "calcObservationEstimates X this observations receivers ic obsDiff = Inr observations'"
    and sig: "map_of (signals observations) s = Some observation"
    and out: "obsDataAt observations' s r t = Some d'"
    and ro: "ro = recvObs observation ! r"
    and satPos: "0 \<le> calcSatellitePositionVariance X (navData observation)"
    and iono: "\<And>dpsr_I f n. 0 \<le> ionoErrorVar X dpsr_I f n"
    and tropo: "\<And>dpsr_T el. 0 \<le> tropoErrorVar X dpsr_T el"
    and codeBias: "0 \<le> codeBiasErrorVar X (gnssMeasurementErrorModel this)"
  shows
   "(t = Pseudorange \<longrightarrow>
       psrMeasErrorVar X (gnssMeasurementErrorModel this) (getSatSys X (freq s))
         (satElevation ro) (calc_cn0 ro) \<le> measVar d') \<and>
    (t = Carrier \<longrightarrow>
       carrierMeasErrorVar X (gnssMeasurementErrorModel this) (getSatSys X (freq s))
         (satElevation ro) (calc_cn0 ro) \<le> measVar d') \<and>
    (t = Doppler \<longrightarrow>
       psrRateMeasErrorVar X (gnssMeasurementErrorModel this) (freq s) (freqNum observation)
         (satElevation ro) (calc_cn0 ro) \<le> measVar d')"
proof -
  from calc_entry [OF run sig out] ro obtain d where
    p: "pairObsData X this ic obsDiff (receivers ! r) (freq s) (freqNum observation)
          (navData observation) ro t d = Inr d'"
    by blast
  have ifb: "0 \<le> interFrequencyBiasVar (receivers ! r) (freq s)"
    by (simp add: interFrequencyBiasVar_def split: option.splits)
  have clk: "\<And>a b. 0 \<le> (InsConst_C X)\<^sup>2 * ((a::real)\<^sup>2 + b\<^sup>2)"
    by simp
  show ?thesis
  proof (intro conjI impI)
    assume t: "t = Pseudorange"
    show "psrMeasErrorVar X (gnssMeasurementErrorModel this) (getSatSys X (freq s))
         (satElevation ro) (calc_cn0 ro) \<le> measVar d'"
      unfolding pair_Pseudorange(2) [OF p [unfolded t]]
      using satPos iono tropo codeBias ifb clk
      by simp
  next
    assume t: "t = Carrier"
    show "carrierMeasErrorVar X (gnssMeasurementErrorModel this) (getSatSys X (freq s))
         (satElevation ro) (calc_cn0 ro) \<le> measVar d'"
      unfolding pair_Carrier(2) [OF p [unfolded t]]
      using satPos iono tropo clk
      by simp
  next
    assume t: "t = Doppler"
    show "psrRateMeasErrorVar X (gnssMeasurementErrorModel this) (freq s) (freqNum observation)
         (satElevation ro) (calc_cn0 ro) \<le> measVar d'"
      unfolding pair_Doppler(2) [OF p [unfolded t]]
      using clk
      by simp
  qed
qed

theorem measVar_ge_baseline_witness:
  "\<exists>observations' dp dc dd.
     calcObservationEstimates ex_X ex_this ex_observations [ex_receiver] () NoDifference
       = Inr observations' \<and>
     obsDataAt observations' ex_satSigId 0 Pseudorange = Some dp \<and>
     obsDataAt observations' ex_satSigId 0 Carrier = Some dc \<and>
     obsDataAt observations' ex_satSigId 0 Doppler = Some dd \<and>
     0 \<le> calcSatellitePositionVariance ex_X () \<and>
     (\<forall>dpsr_I f n. 0 \<le> ionoErrorVar ex_X dpsr_I f n) \<and>
     (\<forall>dpsr_T el. 0 \<le> tropoErrorVar ex_X dpsr_T el) \<and>
     0 \<le> codeBiasErrorVar ex_X (gnssMeasurementErrorModel ex_this) \<and>
     1 \<le> measVar dp \<and> 1 / 100 \<le> measVar dc \<and> 1 / 10 \<le> measVar dd"
proof -
  from calc_returns [OF ex_wellFormed] obtain observations' where
    run: "calcObservationEstimates ex_X ex_this ex_observations [ex_receiver] () NoDifference
            = Inr observations'"
    by blast
  from calc_entry_out [OF run ex_inp(1)] obtain dp where
    dp: "obsDataAt observations' ex_satSigId 0 Pseudorange = Some dp" by blast
  from calc_entry_out [OF run ex_inp(2)] obtain dc where
    dc: "obsDataAt observations' ex_satSigId 0 Carrier = Some dc" by blast
  from calc_entry_out [OF run ex_inp(3)] obtain dd where
    dd: "obsDataAt observations' ex_satSigId 0 Doppler = Some dd" by blast
  have h1: "0 \<le> calcSatellitePositionVariance ex_X (navData \<lparr> recvObs = [ex_recvObs], freqNum = 0, navData = () \<rparr>)"
    by (simp add: ex_X_def)
  have h2: "\<And>dpsr_I f n. 0 \<le> ionoErrorVar ex_X dpsr_I f n" by (simp add: ex_X_def)
  have h3: "\<And>dpsr_T el. 0 \<le> tropoErrorVar ex_X dpsr_T el" by (simp add: ex_X_def)
  have h4: "0 \<le> codeBiasErrorVar ex_X (gnssMeasurementErrorModel ex_this)"
    by (simp add: ex_X_def)
  have "1 \<le> measVar dp"
    using measVar_ge_baseline [OF run ex_sig dp refl h1 h2 h3 h4] by (simp add: ex_X_def)
  moreover have "1 / 100 \<le> measVar dc"
    using measVar_ge_baseline [OF run ex_sig dc refl h1 h2 h3 h4] by (simp add: ex_X_def)
  moreover have "1 / 10 \<le> measVar dd"
    using measVar_ge_baseline [OF run ex_sig dd refl h1 h2 h3 h4] by (simp add: ex_X_def)
  ultimately show ?thesis using run dp dc dd h1 h2 h3 h4 by auto
qed

text \<open>
  C8. For a signal/receiver pair of a well-formed input whose geometric range is 20,000,000 m
  and whose velocities, clock terms (receiver, satellite, per-system, inter-frequency),
  atmospheric delays and Sagnac corrections are all zero, the call returns, and it leaves
  the pseudorange and the carrier estimate 20,000,000 and the Doppler estimate 0. The
  scenario of one satellite and one receiver is the instance proved after it.
\<close>

theorem zero_terms_scenario:
  assumes wf: "wellFormed X observations receivers"
    and sig: "map_of (signals observations) s = Some observation"
    and inp: "obsDataAt observations s r t = Some d"
    and rc: "receiver = receivers ! r"
    and ro: "ro = recvObs observation ! r"
    and range: "calc_rho_r_s receiver ro = 20000000"
    and velocity: "e_satVel ro = (0, 0, 0)" "e_vel receiver = (0, 0, 0)"
    and recvClock: "val (bias (recvClk receiver)) = 0" "val (drift (recvClk receiver)) = 0"
    and satClk: "sat_bias (satClock ro) = 0" "sat_drift (satClock ro) = 0"
    and sysTimeDiff: "val (sysTimeDiffBiasOf X receiver (freq s)) = 0"
                     "val (sysTimeDiffDriftOf X receiver (freq s)) = 0"
    and ifb: "interFrequencyBiasValue receiver (freq s) = 0"
    and atmosphere: "calc_dpsr_T_r_s X this receiver ro = 0"
                    "calc_dpsr_I_r_s X this ic receiver (freq s) (freqNum observation) ro = 0"
    and sagnac: "calc_dpsr_ie_r_s X receiver ro = 0"
                "calcSagnacRateCorrection X (e_pos receiver) (e_satPos ro) (e_vel receiver)
                   (e_satVel ro) = 0"
  shows "\<exists>observations' d'.
           calcObservationEstimates X this observations receivers ic obsDiff = Inr observations' \<and>
           obsDataAt observations' s r t = Some d' \<and>
           (t = Pseudorange \<or> t = Carrier \<longrightarrow> estimate d' = 20000000) \<and>
           (t = Doppler \<longrightarrow> estimate d' = 0)"
proof -
  from calc_returns [OF wf] obtain observations' where
    run: "calcObservationEstimates X this observations receivers ic obsDiff = Inr observations'"
    by blast
  from calc_entry_out [OF run inp] obtain d' where
    out: "obsDataAt observations' s r t = Some d'" by blast
  from calc_entry [OF run sig out] rc ro obtain d0 where
    p: "pairObsData X this ic obsDiff receiver (freq s) (freqNum observation)
          (navData observation) ro t d0 = Inr d'"
    by blast
  have "(t = Pseudorange \<or> t = Carrier \<longrightarrow> estimate d' = 20000000) \<and>
        (t = Doppler \<longrightarrow> estimate d' = 0)"
  proof (intro conjI impI)
    assume "t = Pseudorange \<or> t = Carrier"
    then show "estimate d' = 20000000"
    proof
      assume t: "t = Pseudorange"
      show ?thesis
        unfolding pair_Pseudorange(1) [OF p [unfolded t]]
        by (simp add: range recvClock satClk sysTimeDiff ifb atmosphere sagnac)
    next
      assume t: "t = Carrier"
      show ?thesis
        unfolding pair_Carrier(1) [OF p [unfolded t]]
        by (simp add: range recvClock satClk sysTimeDiff atmosphere sagnac)
    qed
  next
    assume t: "t = Doppler"
    have "calcSagnacRateCorrection X (e_pos receiver) (e_satPos ro) (0, 0, 0) (0, 0, 0) = 0"
      using sagnac(2) by (simp add: velocity)
    then show "estimate d' = 0"
      unfolding pair_Doppler(1) [OF p [unfolded t]]
      by (simp add: velocity recvClock satClk sysTimeDiff vminus_def dot_zero_right)
  qed
  with run out show ?thesis by blast
qed

theorem zero_terms_scenario_witness:
  "signals sc_observations
     = [(ex_satSigId, \<lparr> recvObs = [sc_recvObs], freqNum = 0, navData = () \<rparr>)] \<and>
   calc_rho_r_s sc_receiver sc_recvObs = 20000000 \<and>
   (\<exists>observations' dp dc dd.
     calcObservationEstimates sc_X ex_this sc_observations [sc_receiver] () NoDifference
       = Inr observations' \<and>
     obsDataAt observations' ex_satSigId 0 Pseudorange = Some dp \<and>
     obsDataAt observations' ex_satSigId 0 Carrier = Some dc \<and>
     obsDataAt observations' ex_satSigId 0 Doppler = Some dd \<and>
     estimate dp = 20000000 \<and> estimate dc = 20000000 \<and> estimate dd = 0)"
proof -
  have "\<exists>observations' d'.
      calcObservationEstimates sc_X ex_this sc_observations [sc_receiver] () NoDifference
        = Inr observations' \<and>
      obsDataAt observations' ex_satSigId 0 Pseudorange = Some d' \<and> estimate d' = 20000000"
    using zero_terms_scenario [OF sc_wellFormed sc_sig sc_inp(1) refl refl,
        of ex_this "()" NoDifference]
    by (simp add: sc_defs)
  then obtain observations' dp where
    run: "calcObservationEstimates sc_X ex_this sc_observations [sc_receiver] () NoDifference
            = Inr observations'"
    and dp: "obsDataAt observations' ex_satSigId 0 Pseudorange = Some dp"
            "estimate dp = 20000000"
    by blast
  have "\<exists>o' d'.
      calcObservationEstimates sc_X ex_this sc_observations [sc_receiver] () NoDifference = Inr o' \<and>
      obsDataAt o' ex_satSigId 0 Carrier = Some d' \<and> estimate d' = 20000000"
    using zero_terms_scenario [OF sc_wellFormed sc_sig sc_inp(2) refl refl,
        of ex_this "()" NoDifference]
    by (simp add: sc_defs)
  with run obtain dc where
    dc: "obsDataAt observations' ex_satSigId 0 Carrier = Some dc" "estimate dc = 20000000"
    by auto
  have "\<exists>o' d'.
      calcObservationEstimates sc_X ex_this sc_observations [sc_receiver] () NoDifference = Inr o' \<and>
      obsDataAt o' ex_satSigId 0 Doppler = Some d' \<and> estimate d' = 0"
    using zero_terms_scenario [OF sc_wellFormed sc_sig sc_inp(3) refl refl,
        of ex_this "()" NoDifference]
    by (simp add: sc_defs)
  with run obtain dd where
    dd: "obsDataAt observations' ex_satSigId 0 Doppler = Some dd" "estimate dd = 0"
    by auto
  have "calc_rho_r_s sc_receiver sc_recvObs = 20000000"
    by (simp add: sc_defs)
  with run dp dc dd show ?thesis by (auto simp: sc_observations_def)
qed

text \<open>
  C9. Whether the call returns or throws, it leaves the receivers array, the ionospheric
  correction parameters, the estimator object and the globals of the time source as they
  were, and the observation set differs from the one passed in at most in the correction
  terms, \<open>estimate\<close> and \<open>measVar\<close> of its entries. The providers and the error model are
  the value-returning functions of \<open>Externals\<close>, and the log macro is left out, as in the
  rest of the model.
\<close>

theorem calcObservationEstimates_frame:
  assumes "calcObservationEstimates_in_place X obsDiff w = (w', e)"
  shows "w_receivers w' = w_receivers w \<and>
         w_ionosphericCorrections w' = w_ionosphericCorrections w \<and>
         w_this w' = w_this w \<and>
         w_time w' = w_time w \<and>
         blankObservations (w_observations w') = blankObservations (w_observations w)"
proof -
  from assms have "sameButComputed w w'"
    unfolding calcObservationEstimates_in_place_def
    by (rule forRange_preserves [rotated 3])
       (erule signalBody_same, rule sameButComputed_refl, erule sameButComputed_trans, assumption)
  then show ?thesis by (simp add: sameButComputed_def)
qed

theorem calcObservationEstimates_frame_witness:
  "snd (calcObservationEstimates_in_place ex_X NoDifference ex_world) = None \<and>
   w_receivers (fst (calcObservationEstimates_in_place ex_X NoDifference ex_world))
     = [ex_receiver] \<and>
   w_this (fst (calcObservationEstimates_in_place ex_X NoDifference ex_world)) = ex_this \<and>
   w_time (fst (calcObservationEstimates_in_place ex_X NoDifference ex_world))
     = \<lparr> timeMode = POST_PROCESSING, currentTime = (), currentTimeComputer = 0 \<rparr> \<and>
   blankObservations
       (w_observations (fst (calcObservationEstimates_in_place ex_X NoDifference ex_world)))
     = blankObservations ex_observations \<and>
   snd (calcObservationEstimates_in_place ex_X NoDifference ex_world_throwing)
     = Some out_of_range \<and>
   map_option estimate (obsDataAt (w_observations
       (fst (calcObservationEstimates_in_place ex_X NoDifference ex_world_throwing)))
       ex_satSigId 0 Pseudorange)
     = Some (20000022 + 299792458 * (2 - 13 + 5 + 11)) \<and>
   map_option estimate (obsDataAt (w_observations
       (fst (calcObservationEstimates_in_place ex_X NoDifference ex_world_throwing)))
       ex_satSigId 0 Doppler)
     = Some 0 \<and>
   w_receivers (fst (calcObservationEstimates_in_place ex_X NoDifference ex_world_throwing))
     = [ex_receiver_noDrift] \<and>
   w_this (fst (calcObservationEstimates_in_place ex_X NoDifference ex_world_throwing))
     = ex_this \<and>
   w_time (fst (calcObservationEstimates_in_place ex_X NoDifference ex_world_throwing))
     = \<lparr> timeMode = POST_PROCESSING, currentTime = (), currentTimeComputer = 0 \<rparr> \<and>
   blankObservations
       (w_observations (fst (calcObservationEstimates_in_place ex_X NoDifference ex_world_throwing)))
     = blankObservations ex_observations"
proof -
  have returns: "snd (calcObservationEstimates_in_place ex_X NoDifference ex_world) = None"
    by (simp add: in_place_defs calc_rho_r_s_def vminus_def dot_def norm_v_axis ex_defs)
  have throws:
    "snd (calcObservationEstimates_in_place ex_X NoDifference ex_world_throwing)
       = Some out_of_range \<and>
     map_option estimate (obsDataAt (w_observations
         (fst (calcObservationEstimates_in_place ex_X NoDifference ex_world_throwing)))
         ex_satSigId 0 Pseudorange)
       = Some (20000022 + 299792458 * (2 - 13 + 5 + 11)) \<and>
     map_option estimate (obsDataAt (w_observations
         (fst (calcObservationEstimates_in_place ex_X NoDifference ex_world_throwing)))
         ex_satSigId 0 Doppler)
       = Some 0"
    by (simp add: in_place_defs ex_world_throwing_def ex_receiver_noDrift_def
        calc_rho_r_s_def vminus_def dot_def norm_v_axis ex_defs)
  note f1 = calcObservationEstimates_frame
    [OF surjective_pairing [of "calcObservationEstimates_in_place ex_X NoDifference ex_world"]]
  note f2 = calcObservationEstimates_frame
    [OF surjective_pairing
       [of "calcObservationEstimates_in_place ex_X NoDifference ex_world_throwing"]]
  from f1 have r1:
    "w_receivers (fst (calcObservationEstimates_in_place ex_X NoDifference ex_world))
       = [ex_receiver] \<and>
     w_this (fst (calcObservationEstimates_in_place ex_X NoDifference ex_world)) = ex_this \<and>
     w_time (fst (calcObservationEstimates_in_place ex_X NoDifference ex_world))
       = \<lparr> timeMode = POST_PROCESSING, currentTime = (), currentTimeComputer = 0 \<rparr> \<and>
     blankObservations
         (w_observations (fst (calcObservationEstimates_in_place ex_X NoDifference ex_world)))
       = blankObservations ex_observations"
    by (simp add: ex_world_def)
  from f2 have r2:
    "w_receivers (fst (calcObservationEstimates_in_place ex_X NoDifference ex_world_throwing))
       = [ex_receiver_noDrift] \<and>
     w_this (fst (calcObservationEstimates_in_place ex_X NoDifference ex_world_throwing))
       = ex_this \<and>
     w_time (fst (calcObservationEstimates_in_place ex_X NoDifference ex_world_throwing))
       = \<lparr> timeMode = POST_PROCESSING, currentTime = (), currentTimeComputer = 0 \<rparr> \<and>
     blankObservations
         (w_observations
            (fst (calcObservationEstimates_in_place ex_X NoDifference ex_world_throwing)))
       = blankObservations ex_observations"
    by (simp add: ex_world_def ex_world_throwing_def)
  from returns throws r1 r2 show ?thesis by simp
qed

section \<open>Properties of the time source\<close>

lemma SetCurrentTime_le: "currentTime g \<le> currentTime (SetCurrentTime now t g)"
  by (simp add: SetCurrentTime_def less_imp_le)

lemma SetCurrentTime_calls_le: "currentTime g \<le> currentTime (SetCurrentTime_calls cs g)"
proof (induction cs arbitrary: g)
  case Nil
  show ?case by simp
next
  case (Cons c cs)
  obtain now t where c: "c = (now, t)" by (cases c)
  have "currentTime g \<le> currentTime (SetCurrentTime now t g)" by (rule SetCurrentTime_le)
  also have "\<dots> \<le> currentTime (SetCurrentTime_calls cs (SetCurrentTime now t g))" by (rule Cons.IH)
  finally show ?case using c by simp
qed

lemma SetCurrentTime_calls_append:
  "SetCurrentTime_calls (cs @ cs') g = SetCurrentTime_calls cs' (SetCurrentTime_calls cs g)"
  by (induction cs arbitrary: g) auto

text \<open>
  C10: a call of \<open>SetCurrentTime\<close> with an instant that is not strictly later than the stored
  time leaves the globals (the stored time and the captured steady-clock reading among them)
  as they are; and over any sequence of calls the stored time never decreases: after a
  prefix \<open>cs\<close> of the calls it is at most what it is after the further calls \<open>cs'\<close>.
\<close>

theorem SetCurrentTime_non_decreasing:
  "(\<not> currentTime g < insTime_new \<longrightarrow> SetCurrentTime now insTime_new g = g) \<and>
   currentTime (SetCurrentTime_calls cs g) \<le> currentTime (SetCurrentTime_calls (cs @ cs') g)"
  by (simp add: SetCurrentTime_def SetCurrentTime_calls_append SetCurrentTime_calls_le)

theorem SetCurrentTime_non_decreasing_witness:
  "\<not> currentTime \<lparr> timeMode = REAL_TIME, currentTime = 5 :: nat, currentTimeComputer = 40 \<rparr> < 3 \<and>
   SetCurrentTime 90 3 \<lparr> timeMode = REAL_TIME, currentTime = 5 :: nat, currentTimeComputer = 40 \<rparr>
     = \<lparr> timeMode = REAL_TIME, currentTime = 5, currentTimeComputer = 40 \<rparr> \<and>
   currentTime (SetCurrentTime_calls [(50, 7)]
       \<lparr> timeMode = REAL_TIME, currentTime = 5 :: nat, currentTimeComputer = 40 \<rparr>)
     \<le> currentTime (SetCurrentTime_calls ([(50, 7)] @ [(60, 6), (70, 9)])
       \<lparr> timeMode = REAL_TIME, currentTime = 5 :: nat, currentTimeComputer = 40 \<rparr>)"
  using SetCurrentTime_non_decreasing
    [of "\<lparr> timeMode = REAL_TIME, currentTime = 5 :: nat, currentTimeComputer = 40 \<rparr>" 3 90
        "[(50, 7)]" "[(60, 6), (70, 9)]"]
  by simp

end
